theory Spec2Isabelle
  imports Main
begin

section \<open>JavaScript values\<close>

text \<open>
  A value produced by \<^verbatim>\<open>JSON.parse\<close>. An object keeps its members in textual order.
  Numbers are modelled by integers: the handlers only test a number for being zero.
\<close>

datatype json =
    JNull
  | JBool bool
  | JNum int
  | JStr string
  | JArr "json list"
  | JObj "(string \<times> json) list"

text \<open>JavaScript truthiness, as used by \<^verbatim>\<open>!x\<close>, \<^verbatim>\<open>x || y\<close> and \<^verbatim>\<open>x ? a : b\<close>.\<close>

fun truthy :: "json \<Rightarrow> bool" where
  "truthy JNull = False"
| "truthy (JBool b) = b"
| "truthy (JNum n) = (n \<noteq> 0)"
| "truthy (JStr s) = (s \<noteq> [])"
| "truthy (JArr xs) = True"
| "truthy (JObj kvs) = True"

text \<open>A property read yields \<^verbatim>\<open>undefined\<close> (\<open>None\<close>) when the property is absent.\<close>

fun truthy_opt :: "json option \<Rightarrow> bool" where
  "truthy_opt None = False"
| "truthy_opt (Some v) = truthy v"

text \<open>
  \<^verbatim>\<open>v.k\<close> on a non-null parsed value: the last member named \<open>k\<close> of an object (a later
  duplicate key overwrites an earlier one when parsing), \<^verbatim>\<open>undefined\<close> on anything else.
\<close>

fun get_prop :: "json \<Rightarrow> string \<Rightarrow> json option" where
  "get_prop (JObj kvs) k = map_of (rev kvs) k"
| "get_prop v k = None"

text \<open>\<^verbatim>\<open>a ?? b\<close>: the default replaces \<^verbatim>\<open>undefined\<close> and \<^verbatim>\<open>null\<close> only.\<close>

fun nullish_or :: "json option \<Rightarrow> json \<Rightarrow> json" where
  "nullish_or None d = d"
| "nullish_or (Some JNull) d = d"
| "nullish_or (Some v) d = v"

text \<open>\<^verbatim>\<open>s || d\<close> on an optional string: \<^verbatim>\<open>undefined\<close> and the empty string are falsy.\<close>

fun str_or :: "string option \<Rightarrow> string \<Rightarrow> string" where
  "str_or None d = d"
| "str_or (Some s) d = (if s = [] then d else s)"

fun truthy_str :: "string option \<Rightarrow> bool" where
  "truthy_str None = False"
| "truthy_str (Some s) = (s \<noteq> [])"

text \<open>\<^verbatim>\<open>s.includes(sub)\<close>.\<close>

fun str_includes :: "string \<Rightarrow> string \<Rightarrow> bool" where
  "str_includes [] sub = (sub = [])"
| "str_includes (c # cs) sub =
     (if take (length sub) (c # cs) = sub then True else str_includes cs sub)"

text \<open>
  A thrown value. Every exception the handlers can meet is an \<^verbatim>\<open>Error\<close> object; the
  handlers read its \<^verbatim>\<open>message\<close>, \<^verbatim>\<open>$metadata.httpStatusCode\<close> and \<^verbatim>\<open>statusCode\<close>.
\<close>

datatype exn = Exn (exn_message: string) (metadata_httpStatusCode: "int option")
  (exn_statusCode: "int option")

text \<open>
  The TypeError thrown when a property of \<^verbatim>\<open>null\<close> is read or destructured. The handlers
  only test whether its message mentions an environment variable, which it does not.
\<close>

definition TypeError_null :: exn where
  "TypeError_null = Exn ''Cannot read properties of null'' None None"

text \<open>
  Whether the conversion of a parsed value to a string, as in a template literal
  \<^verbatim>\<open>`${v}`\<close>, throws a TypeError. A primitive converts. An object converts through the
  inherited \<^verbatim>\<open>toString\<close>, unless it has a member named \<^verbatim>\<open>toString\<close> of its own: that member
  is not callable, \<^verbatim>\<open>valueOf\<close> gives no primitive either, and the conversion throws. An
  array converts by joining the conversions of its elements (\<^verbatim>\<open>null\<close> gives the empty
  string), so it throws when one of them does.
\<close>

fun to_string_throws :: "json \<Rightarrow> bool" where
  "to_string_throws (JObj kvs) = (map_of kvs ''toString'' \<noteq> None)"
| "to_string_throws (JArr xs) = list_ex to_string_throws xs"
| "to_string_throws v = False"

definition TypeError_primitive :: exn where
  "TypeError_primitive = Exn ''Cannot convert object to primitive value'' None None"

text \<open>The state in which a promise settles (\<^verbatim>\<open>Promise.allSettled\<close>).\<close>

datatype 'a settled = Fulfilled 'a | Rejected exn

section \<open>Shared utilities of the aws-sam handlers (shared/utils.ts, shared/types.ts)\<close>

text \<open>
  \<open>body\<close> holds the value that the source passes to \<^verbatim>\<open>JSON.stringify\<close>; \<open>headers\<close> lists
  the members of the header object in the order the source writes them.
\<close>

record LambdaResponse =
  statusCode :: int
  headers :: "(string \<times> string) list"
  body :: json

record ConnectionItem =
  connectionId :: string
  timestamp :: "int option"
  ttl :: "int option"

text \<open>The variables of \<^verbatim>\<open>process.env\<close> that the handlers read.\<close>

record process_env =
  env_DYNAMODB_CONNECTIONS_TABLE :: "string option"
  env_WEBSOCKET_API_ENDPOINT :: "string option"
  env_CORS_ORIGIN :: "string option"

record EnvironmentConfig =
  DYNAMODB_CONNECTIONS_TABLE :: string
  WEBSOCKET_API_ENDPOINT :: string
  CORS_ORIGIN :: "string option"

definition createResponse :: "int \<Rightarrow> json \<Rightarrow> (string \<times> string) list \<Rightarrow> LambdaResponse" where
  "createResponse code b hs =
     \<lparr>statusCode = code, headers = (''Content-Type'', ''application/json'') # hs, body = b\<rparr>"

definition createCorsResponse :: "int \<Rightarrow> json \<Rightarrow> string option \<Rightarrow> LambdaResponse" where
  "createCorsResponse code b corsOrigin =
     createResponse code b
       [(''Access-Control-Allow-Origin'', str_or corsOrigin ''*''),
        (''Access-Control-Allow-Headers'', ''Content-Type,Authorization''),
        (''Access-Control-Allow-Methods'', ''GET,POST,PUT,DELETE,OPTIONS'')]"

definition createErrorResponse ::
  "int \<Rightarrow> string \<Rightarrow> string option \<Rightarrow> string option \<Rightarrow> LambdaResponse" where
  "createErrorResponse code msg err corsOrigin =
     createCorsResponse code
       (JObj ((''message'', JStr msg) #
              (if truthy_str err then [(''error'', JStr (the err))] else [])))
       corsOrigin"

definition validateEnvironment :: "process_env \<Rightarrow> exn + EnvironmentConfig" where
  "validateEnvironment env =
     (let config = \<lparr>DYNAMODB_CONNECTIONS_TABLE = str_or (env_DYNAMODB_CONNECTIONS_TABLE env) [],
                    WEBSOCKET_API_ENDPOINT = str_or (env_WEBSOCKET_API_ENDPOINT env) [],
                    CORS_ORIGIN = env_CORS_ORIGIN env\<rparr>
      in if DYNAMODB_CONNECTIONS_TABLE config = []
         then Inl (Exn ''DYNAMODB_CONNECTIONS_TABLE environment variable is required'' None None)
         else if WEBSOCKET_API_ENDPOINT config = []
         then Inl (Exn ''WEBSOCKET_API_ENDPOINT environment variable is required'' None None)
         else Inr config)"

definition createTtl :: "int \<Rightarrow> int \<Rightarrow> int" where
  "createTtl now_ms hoursFromNow = now_ms div 1000 + hoursFromNow * 3600"

section \<open>The services the handlers call\<close>

text \<open>
  What the runtime and the two AWS clients answer: the JSON parser, the clock, the UUID
  generator (\<open>randomUUID svc n\<close> is the identifier that the call number \<open>n\<close> of
  \<^verbatim>\<open>randomUUID()\<close> returns), the page length of the table scan, and for each request whether
  the service rejects it and with which error.
\<close>

record services =
  JSON_parse :: "string \<Rightarrow> exn + json"
  now_iso :: string
  now_ms :: int
  randomUUID :: "nat \<Rightarrow> string"
  page_limit :: nat
  scan_fault :: "nat option \<Rightarrow> exn option"
  put_fault :: "string \<Rightarrow> exn option"
  delete_fault :: "string \<Rightarrow> exn option"
  post_fault :: "string \<Rightarrow> exn option"

text \<open>
  What the invocations change: the connections table, the number of Scan requests sent to
  it, the number of identifiers drawn from the UUID generator, and the PostToConnection
  requests sent to the transport, in the order issued.
\<close>

record world =
  table :: "ConnectionItem list"
  scans :: nat
  uuids_drawn :: nat
  post_attempts :: "(string \<times> json) list"

record ScanOutput =
  Items :: "ConnectionItem list option"
  LastEvaluatedKey :: "nat option"

text \<open>\<^verbatim>\<open>ProjectionExpression: 'connectionId'\<close>.\<close>

definition project_connectionId :: "ConnectionItem \<Rightarrow> ConnectionItem" where
  "project_connectionId it = \<lparr>connectionId = connectionId it, timestamp = None, ttl = None\<rparr>"

definition scan_start :: "nat option \<Rightarrow> nat" where
  "scan_start key = (case key of None \<Rightarrow> 0 | Some k \<Rightarrow> k)"

text \<open>
  A Scan request: one page of at least one item starting at \<^verbatim>\<open>ExclusiveStartKey\<close>, and a
  continuation key while items remain. The key is opaque to the handlers; here it is the
  position in the table.
\<close>

definition dynamo_scan ::
  "services \<Rightarrow> world \<Rightarrow> nat option \<Rightarrow> (exn + ScanOutput) \<times> world" where
  "dynamo_scan svc w key =
     (case scan_fault svc key of
        Some e \<Rightarrow> (Inl e, w\<lparr>scans := Suc (scans w)\<rparr>)
      | None \<Rightarrow>
          (let lim = max 1 (page_limit svc);
               rest = drop (scan_start key) (table w)
           in (Inr \<lparr>Items = Some (map project_connectionId (take lim rest)),
                    LastEvaluatedKey =
                      (if lim < length rest then Some (scan_start key + lim) else None)\<rparr>,
               w\<lparr>scans := Suc (scans w)\<rparr>)))"

definition dynamo_put :: "services \<Rightarrow> world \<Rightarrow> ConnectionItem \<Rightarrow> (exn + unit) \<times> world" where
  "dynamo_put svc w it =
     (case put_fault svc (connectionId it) of
        Some e \<Rightarrow> (Inl e, w)
      | None \<Rightarrow>
          (Inr (), w\<lparr>table := filter (\<lambda>x. connectionId x \<noteq> connectionId it) (table w) @ [it]\<rparr>))"

definition dynamo_delete :: "services \<Rightarrow> world \<Rightarrow> string \<Rightarrow> (exn + unit) \<times> world" where
  "dynamo_delete svc w cid =
     (case delete_fault svc cid of
        Some e \<Rightarrow> (Inl e, w)
      | None \<Rightarrow> (Inr (), w\<lparr>table := filter (\<lambda>x. connectionId x \<noteq> cid) (table w)\<rparr>))"

text \<open>A PostToConnection request; the attempt is recorded whether or not it is delivered.\<close>

definition post_to_connection ::
  "services \<Rightarrow> world \<Rightarrow> string \<Rightarrow> json \<Rightarrow> (exn + unit) \<times> world" where
  "post_to_connection svc w cid msg =
     ((case post_fault svc cid of Some e \<Rightarrow> Inl e | None \<Rightarrow> Inr ()),
      w\<lparr>post_attempts := post_attempts w @ [(cid, msg)]\<rparr>)"

section \<open>BroadcastService (aws-sam, shared/broadcast-service.ts)\<close>

definition chunkSize :: nat where
  "chunkSize = 50"

function getAllConnections_loop ::
  "services \<Rightarrow> world \<Rightarrow> nat option \<Rightarrow> ConnectionItem list \<Rightarrow>
   (exn + ConnectionItem list) \<times> world" where
  "getAllConnections_loop svc w lastEvaluatedKey allConnections =
     (case dynamo_scan svc w lastEvaluatedKey of
        (Inl e, w') \<Rightarrow> (Inl e, w')
      | (Inr result, w') \<Rightarrow>
          (case LastEvaluatedKey result of
             Some k \<Rightarrow>
               getAllConnections_loop svc w' (Some k)
                 (case Items result of Some its \<Rightarrow> allConnections @ its
                                     | None \<Rightarrow> allConnections)
           | None \<Rightarrow>
               (Inr (case Items result of Some its \<Rightarrow> allConnections @ its
                                        | None \<Rightarrow> allConnections), w')))"
  by pat_completeness auto
termination
  by (relation "measure (\<lambda>(svc, w, key, acc).
          case key of None \<Rightarrow> Suc (length (table w)) | Some k \<Rightarrow> length (table w) - k)")
     (auto simp: dynamo_scan_def Let_def scan_start_def split: option.splits if_splits)

declare getAllConnections_loop.simps [simp del]

definition getAllConnections :: "services \<Rightarrow> world \<Rightarrow> (exn + ConnectionItem list) \<times> world" where
  "getAllConnections svc w = getAllConnections_loop svc w None []"

definition removeStaleConnection :: "services \<Rightarrow> world \<Rightarrow> string \<Rightarrow> world" where
  "removeStaleConnection svc w cid =
     (case dynamo_delete svc w cid of
        (Inr u, w') \<Rightarrow> w'
      | (Inl e, w') \<Rightarrow> w')"

definition sendToConnection ::
  "services \<Rightarrow> world \<Rightarrow> string \<Rightarrow> json \<Rightarrow> bool settled \<times> world" where
  "sendToConnection svc w cid msg =
     (case post_to_connection svc w cid msg of
        (Inr u, w') \<Rightarrow> (Fulfilled True, w')
      | (Inl error, w') \<Rightarrow>
          (if metadata_httpStatusCode error = Some 410 \<or> exn_statusCode error = Some 410
           then (Fulfilled False, removeStaleConnection svc w' cid)
           else (Fulfilled False, w')))"

text \<open>
  \<^verbatim>\<open>Promise.allSettled(chunk.map(...))\<close>. The sends of a chunk run concurrently in the
  source; each touches its own connection only, and the model issues them in list order.
\<close>

fun send_chunk ::
  "services \<Rightarrow> world \<Rightarrow> ConnectionItem list \<Rightarrow> json \<Rightarrow> bool settled list \<times> world" where
  "send_chunk svc w [] msg = ([], w)"
| "send_chunk svc w (c # cs) msg =
     (case sendToConnection svc w (connectionId c) msg of
        (r, w') \<Rightarrow> (case send_chunk svc w' cs msg of (rs, w'') \<Rightarrow> (r # rs, w'')))"

record counters =
  sent :: nat
  failed :: nat
  stale :: nat

fun count_result :: "counters \<Rightarrow> bool settled \<Rightarrow> counters" where
  "count_result c (Fulfilled v) =
     (if v then c\<lparr>sent := sent c + 1\<rparr> else c\<lparr>stale := stale c + 1\<rparr>)"
| "count_result c (Rejected reason) = c\<lparr>failed := failed c + 1\<rparr>"

function broadcast_loop ::
  "services \<Rightarrow> ConnectionItem list \<Rightarrow> json \<Rightarrow> nat \<Rightarrow> counters \<Rightarrow> world \<Rightarrow> counters \<times> world" where
  "broadcast_loop svc connections msg i c w =
     (if i < length connections
      then (case send_chunk svc w (take chunkSize (drop i connections)) msg of
              (results, w') \<Rightarrow>
                broadcast_loop svc connections msg (i + chunkSize) (foldl count_result c results) w')
      else (c, w))"
  by pat_completeness auto
termination
  by (relation "measure (\<lambda>(svc, connections, msg, i, c, w). length connections - i)")
     (auto simp: chunkSize_def)

declare broadcast_loop.simps [simp del]

definition broadcastToAll :: "services \<Rightarrow> world \<Rightarrow> json \<Rightarrow> (exn + counters) \<times> world" where
  "broadcastToAll svc w msg =
     (case getAllConnections svc w of
        (Inl e, w') \<Rightarrow> (Inl e, w')
      | (Inr connections, w') \<Rightarrow>
          (case broadcast_loop svc connections msg 0 \<lparr>sent = 0, failed = 0, stale = 0\<rparr> w' of
             (c, w'') \<Rightarrow> (Inr c, w'')))"

section \<open>The aws-sam handlers (broadcast.ts, default.ts, connect.ts, disconnect.ts)\<close>

record event =
  requestContext_connectionId :: "string option"
  event_body :: "string option"

text \<open>
  An object literal as \<^verbatim>\<open>JSON.stringify\<close> writes it: a member whose value is
  \<^verbatim>\<open>undefined\<close> is left out.
\<close>

fun js_object :: "(string \<times> json option) list \<Rightarrow> (string \<times> json) list" where
  "js_object [] = []"
| "js_object ((k, None) # ms) = js_object ms"
| "js_object ((k, Some v) # ms) = (k, v) # js_object ms"

text \<open>
  The \<^verbatim>\<open>catch\<close> block shared by the four handlers: \<open>corsOrigin\<close> is the origin the handler
  passes on (\<^verbatim>\<open>process.env.CORS_ORIGIN\<close> in broadcast.ts, none in the others).
\<close>

definition handler_catch :: "string \<Rightarrow> string option \<Rightarrow> exn \<Rightarrow> LambdaResponse" where
  "handler_catch failure corsOrigin error =
     (if str_includes (exn_message error) ''environment variable''
      then createErrorResponse 500 ''Server configuration error'' None corsOrigin
      else createErrorResponse 500 failure (Some (exn_message error)) corsOrigin)"

definition broadcast_results :: "counters \<Rightarrow> json" where
  "broadcast_results results =
     JObj [(''message'', JStr ''Broadcast completed''),
           (''results'',
            JObj [(''totalConnections'',
                   JNum (int (sent results + failed results + stale results))),
                  (''sent'', JNum (int (sent results))),
                  (''failed'', JNum (int (failed results))),
                  (''staleRemoved'', JNum (int (stale results)))])]"

definition WebSocketMessage :: "services \<Rightarrow> json \<Rightarrow> json" where
  "WebSocketMessage svc requestBody =
     JObj (js_object [(''type'', get_prop requestBody ''type''),
                      (''data'', get_prop requestBody ''data''),
                      (''timestamp'', Some (JStr (now_iso svc)))])"

text \<open>
  broadcast.ts. Reading \<^verbatim>\<open>requestBody.type\<close> of \<^verbatim>\<open>null\<close> throws a TypeError into the outer
  \<^verbatim>\<open>catch\<close>. The test \<^verbatim>\<open>!requestBody.type || !requestBody.data\<close> is written with its
  branches exchanged. After the test, \<^verbatim>\<open>logger.info\<close> writes \<^verbatim>\<open>type\<close> into a template
  literal: when that conversion throws, the \<^verbatim>\<open>catch\<close> answers before any scan.
\<close>

definition broadcast_handler ::
  "services \<Rightarrow> process_env \<Rightarrow> event \<Rightarrow> world \<Rightarrow> LambdaResponse \<times> world" where
  "broadcast_handler svc env ev w =
     (case validateEnvironment env of
        Inl error \<Rightarrow> (handler_catch ''Broadcast failed'' (env_CORS_ORIGIN env) error, w)
      | Inr config \<Rightarrow>
          (if truthy_str (event_body ev)
           then (case JSON_parse svc (the (event_body ev)) of
                   Inl parseError \<Rightarrow>
                     (createErrorResponse 400 ''Invalid JSON in request body'' None
                        (CORS_ORIGIN config), w)
                 | Inr requestBody \<Rightarrow>
                     (if requestBody = JNull
                      then (handler_catch ''Broadcast failed'' (env_CORS_ORIGIN env)
                              TypeError_null, w)
                      else if truthy_opt (get_prop requestBody ''type'') \<and>
                              truthy_opt (get_prop requestBody ''data'')
                      then (if to_string_throws (the (get_prop requestBody ''type''))
                            then (handler_catch ''Broadcast failed'' (env_CORS_ORIGIN env)
                                    TypeError_primitive, w)
                            else (case broadcastToAll svc w (WebSocketMessage svc requestBody) of
                                    (Inl error, w') \<Rightarrow>
                                      (handler_catch ''Broadcast failed'' (env_CORS_ORIGIN env)
                                         error, w')
                                  | (Inr results, w') \<Rightarrow>
                                      (createCorsResponse 200 (broadcast_results results)
                                         (CORS_ORIGIN config), w')))
                      else (createErrorResponse 400 ''Missing required fields: type, data'' None
                              (CORS_ORIGIN config), w)))
           else (createErrorResponse 400 ''Missing request body'' None (CORS_ORIGIN config), w)))"

definition echo_message :: "services \<Rightarrow> string \<Rightarrow> json \<Rightarrow> json" where
  "echo_message svc cid message =
     JObj [(''type'', JStr ''echo''),
           (''data'', JObj [(''message'', JStr ''Message received''),
                            (''original'', message),
                            (''connectionId'', JStr cid)]),
           (''timestamp'', JStr (now_iso svc))]"

text \<open>default.ts. \<^verbatim>\<open>event.body || '{}'\<close> replaces a missing or empty body only.\<close>

definition default_handler ::
  "services \<Rightarrow> process_env \<Rightarrow> event \<Rightarrow> world \<Rightarrow> LambdaResponse \<times> world" where
  "default_handler svc env ev w =
     (if truthy_str (requestContext_connectionId ev)
      then (case validateEnvironment env of
              Inl error \<Rightarrow> (handler_catch ''Failed to process message'' None error, w)
            | Inr config \<Rightarrow>
                (case JSON_parse svc (str_or (event_body ev) ''{}'') of
                   Inl error \<Rightarrow> (handler_catch ''Failed to process message'' None error, w)
                 | Inr message \<Rightarrow>
                     (case post_to_connection svc w (the (requestContext_connectionId ev))
                             (echo_message svc (the (requestContext_connectionId ev)) message) of
                        (Inl error, w') \<Rightarrow>
                          (handler_catch ''Failed to process message'' None error, w')
                      | (Inr u, w') \<Rightarrow>
                          (createResponse 200 (JObj [(''message'', JStr ''Message processed'')]) [],
                           w'))))
      else (createErrorResponse 400 ''Missing connection ID'' None None, w))"

definition connect_handler ::
  "services \<Rightarrow> process_env \<Rightarrow> event \<Rightarrow> world \<Rightarrow> LambdaResponse \<times> world" where
  "connect_handler svc env ev w =
     (if truthy_str (requestContext_connectionId ev)
      then (case validateEnvironment env of
              Inl error \<Rightarrow> (handler_catch ''Failed to connect'' None error, w)
            | Inr config \<Rightarrow>
                (case dynamo_put svc w
                        \<lparr>connectionId = the (requestContext_connectionId ev),
                         timestamp = Some (now_ms svc),
                         ttl = Some (createTtl (now_ms svc) 24)\<rparr> of
                   (Inl error, w') \<Rightarrow> (handler_catch ''Failed to connect'' None error, w')
                 | (Inr u, w') \<Rightarrow>
                     (createResponse 200 (JObj [(''message'', JStr ''Connected'')]) [], w')))
      else (createErrorResponse 400 ''Missing connection ID'' None None, w))"

definition disconnect_handler ::
  "services \<Rightarrow> process_env \<Rightarrow> event \<Rightarrow> world \<Rightarrow> LambdaResponse \<times> world" where
  "disconnect_handler svc env ev w =
     (if truthy_str (requestContext_connectionId ev)
      then (case validateEnvironment env of
              Inl error \<Rightarrow> (handler_catch ''Failed to disconnect'' None error, w)
            | Inr config \<Rightarrow>
                (case dynamo_delete svc w (the (requestContext_connectionId ev)) of
                   (Inl error, w') \<Rightarrow> (handler_catch ''Failed to disconnect'' None error, w')
                 | (Inr u, w') \<Rightarrow>
                     (createResponse 200 (JObj [(''message'', JStr ''Disconnected'')]) [], w')))
      else (createErrorResponse 400 ''Missing connection ID'' None None, w))"

section \<open>The serverless handlers (default handler and broadcastToAll of one file)\<close>

text \<open>These handlers build their responses inline; a response without headers has none here.\<close>

definition serverless_response :: "int \<Rightarrow> (string \<times> string) list \<Rightarrow> json \<Rightarrow> LambdaResponse" where
  "serverless_response code hs b = \<lparr>statusCode = code, headers = hs, body = b\<rparr>"

text \<open>\<^verbatim>\<open>randomUUID()\<close>: the next identifier of the generator.\<close>

definition draw_randomUUID :: "services \<Rightarrow> world \<Rightarrow> string \<times> world" where
  "draw_randomUUID svc w =
     (randomUUID svc (uuids_drawn w), w\<lparr>uuids_drawn := Suc (uuids_drawn w)\<rparr>)"

definition serverless_echo :: "services \<Rightarrow> string \<Rightarrow> json" where
  "serverless_echo svc uuid =
     JObj [(''type'', JStr ''echo''),
           (''version'', JStr ''1''),
           (''id'', JStr uuid),
           (''timestamp'', JStr (now_iso svc)),
           (''source'', JStr ''backend''),
           (''data'', JObj [(''message'', JStr ''Message received'')])]"

definition serverless_default_handler ::
  "services \<Rightarrow> event \<Rightarrow> world \<Rightarrow> LambdaResponse \<times> world" where
  "serverless_default_handler svc ev w =
     (if truthy_str (requestContext_connectionId ev)
      then (case JSON_parse svc (str_or (event_body ev) ''{}'') of
              Inl error \<Rightarrow>
                (serverless_response 500 []
                   (JObj [(''message'', JStr ''Failed to process message''),
                          (''error'', JStr (exn_message error))]), w)
            | Inr message \<Rightarrow>
                (case draw_randomUUID svc w of
                   (uuid, w0) \<Rightarrow>
                     (case post_to_connection svc w0 (the (requestContext_connectionId ev))
                             (serverless_echo svc uuid) of
                        (Inl error, w') \<Rightarrow>
                          (serverless_response 500 []
                             (JObj [(''message'', JStr ''Failed to process message''),
                                    (''error'', JStr (exn_message error))]), w')
                      | (Inr u, w') \<Rightarrow>
                          (serverless_response 200 []
                             (JObj [(''message'', JStr ''Message processed'')]), w'))))
      else (serverless_response 400 [] (JObj [(''message'', JStr ''Missing connection ID'')]), w))"

text \<open>\<^verbatim>\<open>error?.$metadata?.httpStatusCode || error?.statusCode\<close>.\<close>

definition serverless_status :: "exn \<Rightarrow> int option" where
  "serverless_status error =
     (case metadata_httpStatusCode error of
        Some m \<Rightarrow> (if m = 0 then exn_statusCode error else Some m)
      | None \<Rightarrow> exn_statusCode error)"

text \<open>The body of the \<^verbatim>\<open>map\<close> callback: the delete of a stale connection is not guarded.\<close>

definition serverless_send ::
  "services \<Rightarrow> world \<Rightarrow> string \<Rightarrow> json \<Rightarrow> unit settled \<times> world" where
  "serverless_send svc w cid msg =
     (case post_to_connection svc w cid msg of
        (Inr u, w') \<Rightarrow> (Fulfilled (), w')
      | (Inl error, w') \<Rightarrow>
          (if serverless_status error = Some 410
           then (case dynamo_delete svc w' cid of
                   (Inl e, w'') \<Rightarrow> (Rejected e, w'')
                 | (Inr u, w'') \<Rightarrow> (Fulfilled (), w''))
           else (Fulfilled (), w')))"

fun serverless_send_all ::
  "services \<Rightarrow> world \<Rightarrow> ConnectionItem list \<Rightarrow> json \<Rightarrow> unit settled list \<times> world" where
  "serverless_send_all svc w [] msg = ([], w)"
| "serverless_send_all svc w (c # cs) msg =
     (case serverless_send svc w (connectionId c) msg of
        (r, w') \<Rightarrow> (case serverless_send_all svc w' cs msg of (rs, w'') \<Rightarrow> (r # rs, w'')))"

text \<open>\<^verbatim>\<open>Promise.all\<close>: the rejection that the awaiting handler sees, if any promise rejects.\<close>

fun first_rejection :: "'a settled list \<Rightarrow> exn option" where
  "first_rejection [] = None"
| "first_rejection (Fulfilled v # rs) = first_rejection rs"
| "first_rejection (Rejected e # rs) = Some e"

text \<open>
  \<^verbatim>\<open>id ?? randomUUID()\<close>: the generator is called only when \<^verbatim>\<open>id\<close> is \<^verbatim>\<open>undefined\<close> or
  \<^verbatim>\<open>null\<close>.
\<close>

fun id_or_randomUUID :: "services \<Rightarrow> world \<Rightarrow> json option \<Rightarrow> json \<times> world" where
  "id_or_randomUUID svc w None = (case draw_randomUUID svc w of (uuid, w') \<Rightarrow> (JStr uuid, w'))"
| "id_or_randomUUID svc w (Some JNull) =
     (case draw_randomUUID svc w of (uuid, w') \<Rightarrow> (JStr uuid, w'))"
| "id_or_randomUUID svc w (Some v) = (v, w)"

definition serverless_message :: "services \<Rightarrow> world \<Rightarrow> json \<Rightarrow> json \<times> world" where
  "serverless_message svc w requestBody =
     (case id_or_randomUUID svc w (get_prop requestBody ''id'') of
        (idv, w') \<Rightarrow>
          (JObj (js_object
             ([(''type'', get_prop requestBody ''type''),
               (''version'', Some (nullish_or (get_prop requestBody ''version'') (JStr ''1''))),
               (''id'', Some idv),
               (''timestamp'', Some (JStr (now_iso svc))),
               (''source'',
                Some (nullish_or (get_prop requestBody ''source'') (JStr ''backend''))),
               (''data'', get_prop requestBody ''data'')] @
              (if truthy_opt (get_prop requestBody ''meta'')
               then [(''meta'', get_prop requestBody ''meta'')] else []))), w'))"

definition serverless_failed :: "process_env \<Rightarrow> exn \<Rightarrow> LambdaResponse" where
  "serverless_failed env error =
     serverless_response 500
       [(''Access-Control-Allow-Origin'', str_or (env_CORS_ORIGIN env) ''*'')]
       (JObj [(''message'', JStr ''Broadcast failed''), (''error'', JStr (exn_message error))])"

definition serverless_broadcastToAll ::
  "services \<Rightarrow> process_env \<Rightarrow> event \<Rightarrow> world \<Rightarrow> LambdaResponse \<times> world" where
  "serverless_broadcastToAll svc env ev w =
     (if truthy_str (env_DYNAMODB_CONNECTIONS_TABLE env)
      then (if truthy_str (event_body ev)
            then (case JSON_parse svc (the (event_body ev)) of
                    Inl error \<Rightarrow> (serverless_failed env error, w)
                  | Inr requestBody \<Rightarrow>
                      (if requestBody = JNull then (serverless_failed env TypeError_null, w)
                       else (case dynamo_scan svc w None of
                               (Inl error, w') \<Rightarrow> (serverless_failed env error, w')
                             | (Inr connections, w0) \<Rightarrow>
                                 (case serverless_message svc w0 requestBody of
                                    (message, w') \<Rightarrow>
                                 (case serverless_send_all svc w'
                                         (case Items connections of Some its \<Rightarrow> its | None \<Rightarrow> [])
                                         message of
                                    (results, w'') \<Rightarrow>
                                      (case first_rejection results of
                                         Some error \<Rightarrow> (serverless_failed env error, w'')
                                       | None \<Rightarrow>
                                           (serverless_response 200
                                              [(''Access-Control-Allow-Origin'',
                                                str_or (env_CORS_ORIGIN env) ''*''),
                                               (''Access-Control-Allow-Headers'',
                                                ''Content-Type,Authorization''),
                                               (''Access-Control-Allow-Methods'', ''POST,OPTIONS'')]
                                              (JObj [(''message'', JStr ''Broadcast completed''),
                                                     (''connectionCount'',
                                                      JNum (int (case Items connections of
                                                                   Some its \<Rightarrow> length its
                                                                 | None \<Rightarrow> 0)))]),
                                            w'')))))))
            else (serverless_response 400
                    [(''Access-Control-Allow-Origin'', str_or (env_CORS_ORIGIN env) ''*'')]
                    (JObj [(''message'', JStr ''Missing request body'')]), w))
      else (serverless_response 500
              [(''Access-Control-Allow-Origin'', str_or (env_CORS_ORIGIN env) ''*'')]
              (JObj [(''message'', JStr ''Server configuration error'')]), w))"

section \<open>Outcomes of a push, and the scenarios evaluated below\<close>

text \<open>The transport's confirmed-gone signal: HTTP status 410 on the thrown error.\<close>

definition is_gone :: "exn \<Rightarrow> bool" where
  "is_gone e = (metadata_httpStatusCode e = Some 410 \<or> exn_statusCode e = Some 410)"

text \<open>The push to the connection is delivered.\<close>

definition delivered :: "services \<Rightarrow> ConnectionItem \<Rightarrow> bool" where
  "delivered svc c = (post_fault svc (connectionId c) = None)"

text \<open>The push to the connection is answered with 410 and the delete of its record succeeds.\<close>

definition reaped :: "services \<Rightarrow> string \<Rightarrow> bool" where
  "reaped svc cid =
     (case post_fault svc cid of
        None \<Rightarrow> False
      | Some e \<Rightarrow> is_gone e \<and> delete_fault svc cid = None)"

text \<open>
  The key of Scan request number \<open>n\<close> of a paginated enumeration: none for the first
  request, and then the position after \<open>n\<close> pages.
\<close>

definition page_key :: "services \<Rightarrow> nat \<Rightarrow> nat option" where
  "page_key svc n = (if n = 0 then None else Some (n * max 1 (page_limit svc)))"

text \<open>
  The request bodies of the scenarios, and what \<^verbatim>\<open>JSON.parse\<close> makes of each of them; the last
  one is not JSON. The general theorems hold for every parser; this table is only used
  to run the handlers on these bodies.
\<close>

definition body_test :: string where
  \<open>body_test = ''{"type":"test","data":{"x":1}}''\<close>

definition body_no_data :: string where
  \<open>body_no_data = ''{"type":"test"}''\<close>

definition body_zero_data :: string where
  \<open>body_zero_data = ''{"type":"test","data":0}''\<close>

definition body_empty_data :: string where
  \<open>body_empty_data = ''{"type":"test","data":{}}''\<close>

definition body_with_id :: string where
  \<open>body_with_id = ''{"type":"test","data":{"x":1},"id":"abc","source":"notes"}''\<close>

definition body_object_type :: string where
  \<open>body_object_type = ''{"type":{"toString":0},"data":{"x":1}}''\<close>

definition body_malformed :: string where
  "body_malformed = ''not json''"

definition parse_table :: "string \<Rightarrow> exn + json" where
  "parse_table s =
     (case map_of
        [(body_test, JObj [(''type'', JStr ''test''), (''data'', JObj [(''x'', JNum 1)])]),
         (body_no_data, JObj [(''type'', JStr ''test'')]),
         (body_zero_data, JObj [(''type'', JStr ''test''), (''data'', JNum 0)]),
         (body_empty_data, JObj [(''type'', JStr ''test''), (''data'', JObj [])]),
         (body_with_id,
          JObj [(''type'', JStr ''test''), (''data'', JObj [(''x'', JNum 1)]),
                (''id'', JStr ''abc''), (''source'', JStr ''notes'')]),
         (body_object_type,
          JObj [(''type'', JObj [(''toString'', JNum 0)]), (''data'', JObj [(''x'', JNum 1)])]),
         (''{}'', JObj [])] s of
        Some v \<Rightarrow> Inr v
      | None \<Rightarrow> Inl (Exn ''Unexpected token in JSON'' None None))"

definition env_ok :: process_env where
  "env_ok = \<lparr>env_DYNAMODB_CONNECTIONS_TABLE = Some ''connections'',
             env_WEBSOCKET_API_ENDPOINT = Some ''https://ws.example.com/prod'',
             env_CORS_ORIGIN = Some ''https://app.example.com''\<rparr>"

text \<open>
  Every request succeeds; a scan page holds two items; the first two identifiers of the
  generator differ.
\<close>

definition svc_ok :: services where
  "svc_ok = \<lparr>JSON_parse = parse_table,
             now_iso = ''2024-01-01T00:00:00.000Z'',
             now_ms = 1704067200000,
             randomUUID = (\<lambda>n. if n = 0 then ''6f1c2a9e-0000-4000-8000-000000000001''
                               else ''b07d4c55-0000-4000-8000-000000000002''),
             page_limit = 2,
             scan_fault = (\<lambda>k. None),
             put_fault = (\<lambda>c. None),
             delete_fault = (\<lambda>c. None),
             post_fault = (\<lambda>c. None)\<rparr>"

text \<open>Scenario A: the transport answers 410 for \<open>c2\<close> and 429 for \<open>c3\<close>.\<close>

definition svc_mixed :: services where
  "svc_mixed = svc_ok\<lparr>post_fault :=
     (\<lambda>c. if c = ''c2'' then Some (Exn ''Gone'' (Some 410) None)
          else if c = ''c3'' then Some (Exn ''Limit exceeded'' (Some 429) None)
          else None)\<rparr>"

text \<open>As scenario A, and the table rejects the delete of \<open>c2\<close>.\<close>

definition svc_delete_fails :: services where
  "svc_delete_fails = svc_mixed\<lparr>delete_fault :=
     (\<lambda>c. if c = ''c2'' then Some (Exn ''Throughput exceeded'' (Some 400) None) else None)\<rparr>"

text \<open>The table rejects the Scan request for the second page only.\<close>

definition svc_second_page_fails :: services where
  "svc_second_page_fails = svc_ok
     \<lparr>scan_fault := (\<lambda>k. if k = Some 2
                         then Some (Exn ''Throughput exceeded'' (Some 400) None) else None)\<rparr>"

text \<open>The table rejects every request.\<close>

definition svc_table_down :: services where
  "svc_table_down = svc_ok
     \<lparr>scan_fault := (\<lambda>k. Some (Exn ''Requested resource not found'' (Some 400) None)),
      put_fault := (\<lambda>c. Some (Exn ''Requested resource not found'' (Some 400) None)),
      delete_fault := (\<lambda>c. Some (Exn ''Requested resource not found'' (Some 400) None))\<rparr>"

definition item :: "string \<Rightarrow> ConnectionItem" where
  "item cid = \<lparr>connectionId = cid, timestamp = Some 1704060000000, ttl = Some 1704146400\<rparr>"

definition w_three :: world where
  "w_three = \<lparr>table = [item ''c1'', item ''c2'', item ''c3''], scans = 0, uuids_drawn = 0, post_attempts = []\<rparr>"

definition w_two :: world where
  "w_two = \<lparr>table = [item ''c1'', item ''c2''], scans = 0, uuids_drawn = 0, post_attempts = []\<rparr>"

definition w_empty :: world where
  "w_empty = \<lparr>table = [], scans = 0, uuids_drawn = 0, post_attempts = []\<rparr>"

definition ev_broadcast :: "string \<Rightarrow> event" where
  "ev_broadcast b = \<lparr>requestContext_connectionId = None, event_body = Some b\<rparr>"

definition ev_inbound :: "string \<Rightarrow> string option \<Rightarrow> event" where
  "ev_inbound cid b = \<lparr>requestContext_connectionId = Some cid, event_body = b\<rparr>"

definition msg_test :: json where
  "msg_test = JObj [(''type'', JStr ''test''), (''data'', JObj [(''x'', JNum 1)]),
                    (''timestamp'', JStr ''2024-01-01T00:00:00.000Z'')]"

section \<open>The table scan\<close>

lemma getAllConnections_loop_spec:
  "getAllConnections_loop svc w key acc = (r, w') \<Longrightarrow>
     table w' = table w \<and> post_attempts w' = post_attempts w \<and> scans w < scans w' \<and>
     (case r of
        Inl e \<Rightarrow> \<exists>k. scan_fault svc k = Some e
      | Inr conns \<Rightarrow> conns = acc @ map project_connectionId (drop (scan_start key) (table w)))"
proof (induction svc w key acc rule: getAllConnections_loop.induct)
  case (1 svc w key acc)
  let ?lim = "max 1 (page_limit svc)"
  let ?rest = "drop (scan_start key) (table w)"
  let ?page = "map project_connectionId (take ?lim ?rest)"
  let ?w1 = "w\<lparr>scans := Suc (scans w)\<rparr>"
  show ?case
  proof (cases "scan_fault svc key")
    case (Some e)
    have "getAllConnections_loop svc w key acc = (Inl e, ?w1)"
      by (subst getAllConnections_loop.simps) (simp add: dynamo_scan_def Some)
    with "1.prems" Some show ?thesis by auto
  next
    case None
    show ?thesis
    proof (cases "?lim < length ?rest")
      case True
      let ?k = "scan_start key + ?lim"
      have scan: "dynamo_scan svc w key =
            (Inr \<lparr>Items = Some ?page, LastEvaluatedKey = Some ?k\<rparr>, ?w1)"
        using None True by (simp add: dynamo_scan_def Let_def)
      have step: "getAllConnections_loop svc w key acc =
            getAllConnections_loop svc ?w1 (Some ?k) (acc @ ?page)"
        by (subst getAllConnections_loop.simps) (simp add: scan)
      have ih: "table w' = table ?w1 \<and> post_attempts w' = post_attempts ?w1 \<and>
                scans ?w1 < scans w' \<and>
                (case r of
                   Inl e \<Rightarrow> \<exists>k. scan_fault svc k = Some e
                 | Inr conns \<Rightarrow>
                     conns = (acc @ ?page) @
                       map project_connectionId (drop (scan_start (Some ?k)) (table ?w1)))"
        using "1.IH"[OF scan[symmetric] refl, of ?k] "1.prems" step by (cases r) simp_all
      have "take ?lim ?rest @ drop ?k (table w) = ?rest"
        by (metis add.commute append_take_drop_id drop_drop)
      then have "?page @ map project_connectionId (drop ?k (table w)) =
                 map project_connectionId ?rest"
        by (metis map_append)
      with ih show ?thesis by (auto simp: scan_start_def split: sum.splits)
    next
      case False
      have scan: "dynamo_scan svc w key =
            (Inr \<lparr>Items = Some ?page, LastEvaluatedKey = None\<rparr>, ?w1)"
        using None False by (simp add: dynamo_scan_def Let_def)
      have "getAllConnections_loop svc w key acc = (Inr (acc @ ?page), ?w1)"
        by (subst getAllConnections_loop.simps) (simp add: scan)
      with "1.prems" False show ?thesis by auto
    qed
  qed
qed

lemma getAllConnections_spec:
  assumes "getAllConnections svc w = (r, w')"
  shows "table w' = table w" and "post_attempts w' = post_attempts w" and "scans w < scans w'"
    and "\<And>conns. r = Inr conns \<Longrightarrow> conns = map project_connectionId (table w)"
    and "\<And>e. r = Inl e \<Longrightarrow> \<exists>k. scan_fault svc k = Some e"
  using getAllConnections_loop_spec[of svc w None "[]" r w'] assms
  by (auto simp: getAllConnections_def scan_start_def)

text \<open>
  When no scan request is rejected, \<open>getAllConnections\<close> returns, with every record of the
  table, however many pages the table spans.
\<close>

lemma getAllConnections_total:
  assumes "\<forall>k. scan_fault svc k = None"
  shows "fst (getAllConnections svc w) = Inr (map project_connectionId (table w))"
proof (cases "getAllConnections svc w")
  case (Pair r w')
  show ?thesis
  proof (cases r)
    case (Inl e)
    with getAllConnections_spec(5)[OF Pair] assms show ?thesis by auto
  next
    case (Inr conns)
    with getAllConnections_spec(4)[OF Pair] Pair show ?thesis by simp
  qed
qed

section \<open>One broadcast, connection by connection\<close>

lemma sendToConnection_spec:
  "sendToConnection svc w cid msg =
     (Fulfilled (post_fault svc cid = None),
      \<lparr>table = (if reaped svc cid then filter (\<lambda>x. connectionId x \<noteq> cid) (table w) else table w),
       scans = scans w, uuids_drawn = uuids_drawn w,
       post_attempts = post_attempts w @ [(cid, msg)]\<rparr>)"
  by (cases "post_fault svc cid")
     (auto simp: sendToConnection_def post_to_connection_def removeStaleConnection_def
                 dynamo_delete_def reaped_def is_gone_def split: option.splits)

lemma send_chunk_spec:
  "send_chunk svc w cs msg =
     (map (\<lambda>c. Fulfilled (delivered svc c)) cs,
      \<lparr>table = filter (\<lambda>x. \<not> (reaped svc (connectionId x) \<and>
                               connectionId x \<in> connectionId ` set cs)) (table w),
       scans = scans w, uuids_drawn = uuids_drawn w,
       post_attempts = post_attempts w @ map (\<lambda>c. (connectionId c, msg)) cs\<rparr>)"
proof (induction cs arbitrary: w)
  case Nil
  show ?case by simp
next
  case (Cons c cs)
  have "filter (\<lambda>x. \<not> (reaped svc (connectionId x) \<and> connectionId x \<in> connectionId ` set cs))
          (if reaped svc (connectionId c)
           then filter (\<lambda>x. connectionId x \<noteq> connectionId c) (table w) else table w) =
        filter (\<lambda>x. \<not> (reaped svc (connectionId x) \<and>
                        connectionId x \<in> connectionId ` set (c # cs))) (table w)"
    by (auto intro: filter_cong)
  then show ?case
    by (simp add: sendToConnection_spec Cons.IH delivered_def)
qed

lemma foldl_count_result:
  "foldl count_result c (map (\<lambda>x. Fulfilled (delivered svc x)) cs) =
     \<lparr>sent = sent c + length (filter (delivered svc) cs),
      failed = failed c,
      stale = stale c + length (filter (\<lambda>x. \<not> delivered svc x) cs)\<rparr>"
  by (induction cs arbitrary: c) auto

lemma broadcast_loop_spec:
  "broadcast_loop svc conns msg i c w =
     (\<lparr>sent = sent c + length (filter (delivered svc) (drop i conns)),
       failed = failed c,
       stale = stale c + length (filter (\<lambda>x. \<not> delivered svc x) (drop i conns))\<rparr>,
      \<lparr>table = filter (\<lambda>x. \<not> (reaped svc (connectionId x) \<and>
                               connectionId x \<in> connectionId ` set (drop i conns))) (table w),
       scans = scans w, uuids_drawn = uuids_drawn w,
       post_attempts = post_attempts w @ map (\<lambda>c. (connectionId c, msg)) (drop i conns)\<rparr>)"
proof (induction svc conns msg i c w rule: broadcast_loop.induct)
  case (1 svc conns msg i c w)
  show ?case
  proof (cases "i < length conns")
    case False
    then show ?thesis
      by (subst broadcast_loop.simps) simp
  next
    case True
    let ?chunk = "take chunkSize (drop i conns)"
    let ?rest = "drop (i + chunkSize) conns"
    have split: "drop i conns = ?chunk @ ?rest"
      by (metis add.commute append_take_drop_id drop_drop)
    obtain results w1 where sc: "send_chunk svc w ?chunk msg = (results, w1)"
      by (cases "send_chunk svc w ?chunk msg")
    have res: "results = map (\<lambda>x. Fulfilled (delivered svc x)) ?chunk"
      and w1: "w1 = \<lparr>table = filter (\<lambda>x. \<not> (reaped svc (connectionId x) \<and>
                               connectionId x \<in> connectionId ` set ?chunk)) (table w),
                     scans = scans w, uuids_drawn = uuids_drawn w,
                     post_attempts = post_attempts w @ map (\<lambda>c. (connectionId c, msg)) ?chunk\<rparr>"
      using sc by (simp_all add: send_chunk_spec)
    have step: "broadcast_loop svc conns msg i c w =
          broadcast_loop svc conns msg (i + chunkSize) (foldl count_result c results) w1"
      using True by (subst broadcast_loop.simps) (simp add: sc)
    have ih: "broadcast_loop svc conns msg (i + chunkSize) (foldl count_result c results) w1 =
       (\<lparr>sent = sent (foldl count_result c results) + length (filter (delivered svc) ?rest),
         failed = failed (foldl count_result c results),
         stale = stale (foldl count_result c results) +
                 length (filter (\<lambda>x. \<not> delivered svc x) ?rest)\<rparr>,
        \<lparr>table = filter (\<lambda>x. \<not> (reaped svc (connectionId x) \<and>
                                 connectionId x \<in> connectionId ` set ?rest)) (table w1),
         scans = scans w1, uuids_drawn = uuids_drawn w1,
         post_attempts = post_attempts w1 @ map (\<lambda>c. (connectionId c, msg)) ?rest\<rparr>)"
      using "1.IH"[OF True sc[symmetric]] .
    have set_split: "set (drop i conns) = set ?chunk \<union> set ?rest"
      by (metis split set_append)
    have tbl: "filter (\<lambda>x. \<not> (reaped svc (connectionId x) \<and>
                                 connectionId x \<in> connectionId ` set ?rest)) (table w1) =
               filter (\<lambda>x. \<not> (reaped svc (connectionId x) \<and>
                               connectionId x \<in> connectionId ` set (drop i conns))) (table w)"
      by (auto simp: w1 set_split intro: filter_cong)
    have cnt: "length (filter P (drop i conns)) = length (filter P ?chunk) + length (filter P ?rest)"
      for P :: "ConnectionItem \<Rightarrow> bool"
      by (metis split filter_append length_append)
    have posts: "map (\<lambda>c. (connectionId c, msg)) (drop i conns) =
                 map (\<lambda>c. (connectionId c, msg)) ?chunk @ map (\<lambda>c. (connectionId c, msg)) ?rest"
      by (metis split map_append)
    show ?thesis
      unfolding step ih tbl
      by (simp add: res foldl_count_result cnt posts w1)
  qed
qed

text \<open>
  What a broadcast returns and leaves behind once the scan has succeeded: every scanned
  connection is pushed to once, in order; the records of the reaped connections are gone.
\<close>

lemma broadcastToAll_spec:
  assumes "getAllConnections svc w = (Inr conns, w1)"
  shows "broadcastToAll svc w msg =
     (Inr \<lparr>sent = length (filter (delivered svc) (table w)),
           failed = 0,
           stale = length (filter (\<lambda>x. \<not> delivered svc x) (table w))\<rparr>,
      \<lparr>table = filter (\<lambda>x. \<not> reaped svc (connectionId x)) (table w),
       scans = scans w1, uuids_drawn = uuids_drawn w1,
       post_attempts = post_attempts w @ map (\<lambda>c. (connectionId c, msg)) (table w)\<rparr>)"
proof -
  have conns: "conns = map project_connectionId (table w)"
    using getAllConnections_spec(4)[OF assms] by simp
  have ids: "connectionId ` set conns = connectionId ` set (table w)"
    by (simp add: conns image_image project_connectionId_def)
  have tbl: "filter (\<lambda>x. \<not> (reaped svc (connectionId x) \<and>
                            connectionId x \<in> connectionId ` set conns)) (table w) =
             filter (\<lambda>x. \<not> reaped svc (connectionId x)) (table w)"
    unfolding ids by (auto intro: filter_cong)
  have comp: "delivered svc \<circ> project_connectionId = delivered svc"
    "(\<lambda>x. \<not> delivered svc x) \<circ> project_connectionId = (\<lambda>x. \<not> delivered svc x)"
    by (simp_all add: fun_eq_iff delivered_def project_connectionId_def)
  have c1: "length (filter (delivered svc) conns) = length (filter (delivered svc) (table w))"
    by (simp add: conns filter_map comp)
  have c2: "length (filter (\<lambda>x. \<not> delivered svc x) conns) =
            length (filter (\<lambda>x. \<not> delivered svc x) (table w))"
    by (simp add: conns filter_map comp)
  have posts: "map (\<lambda>c. (connectionId c, msg)) conns = map (\<lambda>c. (connectionId c, msg)) (table w)"
    by (simp add: conns project_connectionId_def)
  have w1: "table w1 = table w" "post_attempts w1 = post_attempts w"
    using getAllConnections_spec(1,2)[OF assms] by simp_all
  have "broadcastToAll svc w msg =
        (case broadcast_loop svc conns msg 0 \<lparr>sent = 0, failed = 0, stale = 0\<rparr> w1 of
           (c, w'') \<Rightarrow> (Inr c, w''))"
    by (simp add: broadcastToAll_def assms)
  then show ?thesis
    unfolding broadcast_loop_spec using tbl by (simp add: c1 c2 posts w1)
qed

lemma broadcastToAll_error:
  assumes "getAllConnections svc w = (Inl e, w1)"
  shows "broadcastToAll svc w msg = (Inl e, w1)"
  by (simp add: broadcastToAll_def assms)

text \<open>
  A connection whose push fails with another status than 410 keeps its record: only reaped
  connections leave the table.
\<close>

lemma transient_failure_keeps_record:
  assumes "broadcastToAll svc w msg = (Inr c, w')"
    and "post_fault svc cid = Some e" and "\<not> is_gone e"
  shows "filter (\<lambda>x. connectionId x = cid) (table w') =
         filter (\<lambda>x. connectionId x = cid) (table w)"
proof -
  obtain r w1 where g: "getAllConnections svc w = (r, w1)"
    by (cases "getAllConnections svc w")
  have n: "\<not> reaped svc cid"
    using assms(2,3) by (simp add: reaped_def)
  show ?thesis
  proof (cases r)
    case (Inl err)
    with g assms(1) show ?thesis by (simp add: broadcastToAll_def)
  next
    case (Inr conns)
    with g have "getAllConnections svc w = (Inr conns, w1)" by simp
    from broadcastToAll_spec[OF this, of msg] assms(1)
    have "table w' = filter (\<lambda>x. \<not> reaped svc (connectionId x)) (table w)"
      by simp
    with n show ?thesis
      by (auto intro: filter_cong)
  qed
qed

section \<open>Rejected scans\<close>

text \<open>
  A rejected Scan request makes \<open>getAllConnections\<close> fail with that rejection, on the first
  page or on a later one: request number \<open>n\<close> is sent when the earlier ones succeeded and
  records remain after \<open>n\<close> pages.
\<close>

lemma getAllConnections_loop_fault:
  assumes "scan_fault svc (page_key svc (j + d)) = Some e"
    and "\<forall>m. j \<le> m \<and> m < j + d \<longrightarrow> scan_fault svc (page_key svc m) = None"
    and "d = 0 \<or> (j + d) * max 1 (page_limit svc) < length (table w)"
  shows "\<exists>w'. getAllConnections_loop svc w (page_key svc j) acc = (Inl e, w') \<and>
              table w' = table w \<and> post_attempts w' = post_attempts w \<and>
              uuids_drawn w' = uuids_drawn w"
  using assms
proof (induction d arbitrary: j w acc)
  case 0
  then have "scan_fault svc (page_key svc j) = Some e" by simp
  then have "getAllConnections_loop svc w (page_key svc j) acc =
               (Inl e, w\<lparr>scans := Suc (scans w)\<rparr>)"
    by (subst getAllConnections_loop.simps) (simp add: dynamo_scan_def)
  then show ?case by simp
next
  case (Suc d)
  let ?lim = "max 1 (page_limit svc)"
  let ?w1 = "w\<lparr>scans := Suc (scans w)\<rparr>"
  let ?rest = "drop (scan_start (page_key svc j)) (table w)"
  let ?page = "map project_connectionId (take ?lim ?rest)"
  have ok: "scan_fault svc (page_key svc j) = None"
    using Suc.prems(2) by simp
  have start: "scan_start (page_key svc j) = j * ?lim"
    by (simp add: page_key_def scan_start_def)
  have a: "(j + Suc d) * ?lim < length (table w)"
    using Suc.prems(3) by simp
  have b: "j * ?lim + ?lim \<le> (j + Suc d) * ?lim"
    by (simp add: add_mult_distrib)
  have more: "?lim < length ?rest"
    unfolding start length_drop using a b by arith
  have key: "Some (scan_start (page_key svc j) + ?lim) = page_key svc (Suc j)"
    unfolding start by (simp add: page_key_def)
  have scan: "dynamo_scan svc w (page_key svc j) =
        (Inr \<lparr>Items = Some ?page, LastEvaluatedKey = page_key svc (Suc j)\<rparr>, ?w1)"
    using ok more key by (simp add: dynamo_scan_def Let_def)
  have pk: "page_key svc (Suc j) = Some (Suc j * ?lim)"
    by (simp add: page_key_def)
  have step: "getAllConnections_loop svc w (page_key svc j) acc =
        getAllConnections_loop svc ?w1 (page_key svc (Suc j)) (acc @ ?page)"
    by (subst getAllConnections_loop.simps) (simp add: scan pk)
  have 1: "scan_fault svc (page_key svc (Suc j + d)) = Some e"
    using Suc.prems(1) by simp
  have 2: "\<forall>m. Suc j \<le> m \<and> m < Suc j + d \<longrightarrow> scan_fault svc (page_key svc m) = None"
    using Suc.prems(2) by simp
  have 3: "d = 0 \<or> (Suc j + d) * ?lim < length (table ?w1)"
    using Suc.prems(3) by simp
  from Suc.IH[OF 1 2 3, of "acc @ ?page"] show ?case
    unfolding step by simp
qed

lemma getAllConnections_fault:
  assumes "scan_fault svc (page_key svc n) = Some e"
    and "\<forall>m<n. scan_fault svc (page_key svc m) = None"
    and "n = 0 \<or> n * max 1 (page_limit svc) < length (table w)"
  shows "\<exists>w'. getAllConnections svc w = (Inl e, w') \<and>
              table w' = table w \<and> post_attempts w' = post_attempts w \<and>
              uuids_drawn w' = uuids_drawn w"
proof -
  have k: "page_key svc 0 = None"
    by (simp add: page_key_def)
  from getAllConnections_loop_fault[of svc 0 n e w "[]"] assms show ?thesis
    by (simp add: getAllConnections_def k)
qed

section \<open>The broadcast entry point (aws-sam)\<close>

lemma createCorsResponse_fields:
  "createCorsResponse code b origin =
     \<lparr>statusCode = code,
      headers = [(''Content-Type'', ''application/json''),
                 (''Access-Control-Allow-Origin'', str_or origin ''*''),
                 (''Access-Control-Allow-Headers'', ''Content-Type,Authorization''),
                 (''Access-Control-Allow-Methods'', ''GET,POST,PUT,DELETE,OPTIONS'')],
      body = b\<rparr>"
  by (simp add: createCorsResponse_def createResponse_def)

lemma handler_catch_fields:
  "statusCode (handler_catch failure origin e) = 500"
  "body (handler_catch failure origin e) =
     (if str_includes (exn_message e) ''environment variable''
      then JObj [(''message'', JStr ''Server configuration error'')]
      else JObj ((''message'', JStr failure) #
                 (if exn_message e = [] then [] else [(''error'', JStr (exn_message e))])))"
  by (simp_all add: handler_catch_def createErrorResponse_def createCorsResponse_fields)

lemma handler_catch_status: "statusCode (handler_catch failure corsOrigin error) = 500"
  by (rule handler_catch_fields(1))

lemma broadcast_handler_valid:
  assumes "validateEnvironment env = Inr config"
    and "event_body ev = Some b" and "b \<noteq> []" and "JSON_parse svc b = Inr requestBody"
    and "get_prop requestBody ''type'' = Some type" and "truthy type"
    and "\<not> to_string_throws type"
    and "truthy_opt (get_prop requestBody ''data'')"
  shows "broadcast_handler svc env ev w =
     (case broadcastToAll svc w (WebSocketMessage svc requestBody) of
        (Inl error, w') \<Rightarrow> (handler_catch ''Broadcast failed'' (env_CORS_ORIGIN env) error, w')
      | (Inr results, w') \<Rightarrow>
          (createCorsResponse 200 (broadcast_results results) (CORS_ORIGIN config), w'))"
proof -
  have "requestBody \<noteq> JNull"
    using assms(5) by auto
  then show ?thesis
    using assms by (simp add: broadcast_handler_def)
qed

text \<open>
  A \<open>type\<close> that passes the test but has no conversion to a string stops the handler at its
  log line: the answer is a 500 and nothing is scanned or pushed.
\<close>

lemma broadcast_handler_unconvertible:
  assumes "validateEnvironment env = Inr config"
    and "event_body ev = Some b" and "b \<noteq> []" and "JSON_parse svc b = Inr requestBody"
    and "get_prop requestBody ''type'' = Some type" and "truthy type"
    and "to_string_throws type"
    and "truthy_opt (get_prop requestBody ''data'')"
  shows "broadcast_handler svc env ev w =
     (handler_catch ''Broadcast failed'' (env_CORS_ORIGIN env) TypeError_primitive, w)"
proof -
  have "requestBody \<noteq> JNull"
    using assms(5) by auto
  then show ?thesis
    using assms by (simp add: broadcast_handler_def)
qed

lemma broadcast_handler_unconvertible_example:
  "broadcast_handler svc_ok env_ok (ev_broadcast body_object_type) w_three =
     (\<lparr>statusCode = 500,
       headers = [(''Content-Type'', ''application/json''),
                  (''Access-Control-Allow-Origin'', ''https://app.example.com''),
                  (''Access-Control-Allow-Headers'', ''Content-Type,Authorization''),
                  (''Access-Control-Allow-Methods'', ''GET,POST,PUT,DELETE,OPTIONS'')],
       body = JObj [(''message'', JStr ''Broadcast failed''),
                    (''error'', JStr ''Cannot convert object to primitive value'')]\<rparr>,
      w_three)"
  by code_simp

lemma broadcast_handler_invalid:
  assumes "validateEnvironment env = Inr config"
    and "event_body ev = Some b" and "b \<noteq> []" and "JSON_parse svc b = Inr requestBody"
    and "requestBody \<noteq> JNull"
    and "\<not> (truthy_opt (get_prop requestBody ''type'') \<and> truthy_opt (get_prop requestBody ''data''))"
  shows "broadcast_handler svc env ev w =
     (createErrorResponse 400 ''Missing required fields: type, data'' None (CORS_ORIGIN config), w)"
  using assms by (auto simp: broadcast_handler_def)

text \<open>
  Claim C9. \<open>sendToConnection\<close> always fulfils with a boolean, whatever the transport and
  the table answer: true when the push is delivered, false otherwise. So every settled
  result of every chunk is fulfilled, and a broadcast that returns counters returns
  \<open>failed = 0\<close>; \<open>stale\<close> counts every connection whose push failed, gone or not.
\<close>

theorem failed_counter_always_zero:
  assumes "broadcastToAll svc w msg = (Inr c, w')"
  shows "failed c = 0 \<and>
         sent c = length (filter (\<lambda>x. post_fault svc (connectionId x) = None) (table w)) \<and>
         stale c = length (filter (\<lambda>x. post_fault svc (connectionId x) \<noteq> None) (table w)) \<and>
         (\<forall>w0 chunk. fst (send_chunk svc w0 chunk msg) =
            map (\<lambda>x. Fulfilled (post_fault svc (connectionId x) = None)) chunk) \<and>
         (\<forall>w0 cid. fst (sendToConnection svc w0 cid msg) = Fulfilled (post_fault svc cid = None))"
proof -
  obtain r w1 where g: "getAllConnections svc w = (r, w1)"
    by (cases "getAllConnections svc w")
  show ?thesis
  proof (cases r)
    case (Inl e)
    with g assms show ?thesis by (simp add: broadcastToAll_def)
  next
    case (Inr conns)
    have d: "delivered svc = (\<lambda>x. post_fault svc (connectionId x) = None)"
      by (simp add: fun_eq_iff delivered_def)
    from g Inr have "getAllConnections svc w = (Inr conns, w1)" by simp
    from broadcastToAll_spec[OF this, of msg] assms
    show ?thesis
      by (auto simp: d send_chunk_spec sendToConnection_spec)
  qed
qed


text \<open>
  Scenario A (one delivered, one gone, one throttled): the counters are 1, 0 and 2.
\<close>

theorem failed_counter_always_zero_witness:
  "broadcastToAll svc_mixed w_three msg_test =
     (Inr \<lparr>sent = 1, failed = 0, stale = 2\<rparr>,
      \<lparr>table = [item ''c1'', item ''c3''], scans = 2, uuids_drawn = 0,
       post_attempts = [(''c1'', msg_test), (''c2'', msg_test), (''c3'', msg_test)]\<rparr>) \<and>
   failed \<lparr>sent = 1, failed = 0, stale = 2\<rparr> = 0 \<and>
   stale \<lparr>sent = 1, failed = 0, stale = 2\<rparr> =
     length (filter (\<lambda>x. post_fault svc_mixed (connectionId x) \<noteq> None) (table w_three))"
proof -
  have h: "broadcastToAll svc_mixed w_three msg_test =
     (Inr \<lparr>sent = 1, failed = 0, stale = 2\<rparr>,
      \<lparr>table = [item ''c1'', item ''c3''], scans = 2, uuids_drawn = 0,
       post_attempts = [(''c1'', msg_test), (''c2'', msg_test), (''c3'', msg_test)]\<rparr>)"
    by code_simp
  show ?thesis
    using h failed_counter_always_zero[OF h] by simp
qed

lemma count_distinct_key:
  "distinct (map f xs) \<Longrightarrow> a \<in> f ` set xs \<Longrightarrow> length (filter (\<lambda>x. f x = a) xs) = 1"
proof (induction xs)
  case Nil
  then show ?case by simp
next
  case (Cons x xs)
  show ?case
  proof (cases "f x = a")
    case True
    with Cons.prems have "filter (\<lambda>y. f y = a) xs = []"
      by (force simp: filter_empty_conv image_iff)
    with True show ?thesis by simp
  next
    case False
    with Cons show ?thesis by auto
  qed
qed

text \<open>
  Claim C2, amended. When the push to \<open>cid\<close> fails with status 410, the record of \<open>cid\<close> is
  absent after the broadcast if the delete of the record succeeds; if the table rejects the
  delete, the record stays. Either way \<open>cid\<close> is counted exactly once in the returned
  \<open>stale\<close>: \<open>stale\<close> is the number of scanned connections whose push failed, and \<open>cid\<close>
  is exactly one of them (connection ids are the table's key; the broadcast pushes once
  to each).
\<close>

theorem gone_connection_reaped:
  assumes "broadcastToAll svc w msg = (Inr c, w')"
    and "distinct (map connectionId (table w))"
    and "cid \<in> connectionId ` set (table w)"
    and "post_fault svc cid = Some e"
    and "metadata_httpStatusCode e = Some 410 \<or> exn_statusCode e = Some 410"
  shows "(if delete_fault svc cid = None
          then cid \<notin> connectionId ` set (table w')
          else filter (\<lambda>x. connectionId x = cid) (table w') =
               filter (\<lambda>x. connectionId x = cid) (table w) \<and>
               cid \<in> connectionId ` set (table w')) \<and>
         stale c = length (filter (\<lambda>x. post_fault svc (connectionId x) \<noteq> None) (table w)) \<and>
         length (filter (\<lambda>x. connectionId x = cid)
                   (filter (\<lambda>x. post_fault svc (connectionId x) \<noteq> None) (table w))) = 1 \<and>
         post_attempts w' = post_attempts w @ map (\<lambda>x. (connectionId x, msg)) (table w) \<and>
         length (filter (\<lambda>x. connectionId x = cid) (table w)) = 1"
proof -
  obtain r w1 where g: "getAllConnections svc w = (r, w1)"
    by (cases "getAllConnections svc w")
  have one: "length (filter (\<lambda>x. connectionId x = cid) (table w)) = 1"
    using count_distinct_key[OF assms(2,3)] .
  have "filter (\<lambda>x. connectionId x = cid)
          (filter (\<lambda>x. post_fault svc (connectionId x) \<noteq> None) (table w)) =
        filter (\<lambda>x. connectionId x = cid) (table w)"
    using assms(4) by (auto intro: filter_cong)
  with one have once: "length (filter (\<lambda>x. connectionId x = cid)
          (filter (\<lambda>x. post_fault svc (connectionId x) \<noteq> None) (table w))) = 1"
    by simp
  show ?thesis
  proof (cases r)
    case (Inl err)
    with g assms(1) show ?thesis by (simp add: broadcastToAll_def)
  next
    case (Inr conns)
    have d: "(\<lambda>x. \<not> delivered svc x) = (\<lambda>x. post_fault svc (connectionId x) \<noteq> None)"
      by (simp add: fun_eq_iff delivered_def)
    from g Inr have "getAllConnections svc w = (Inr conns, w1)" by simp
    from broadcastToAll_spec[OF this, of msg] assms(1)
    have tbl: "table w' = filter (\<lambda>x. \<not> reaped svc (connectionId x)) (table w)"
      and posts: "post_attempts w' = post_attempts w @ map (\<lambda>x. (connectionId x, msg)) (table w)"
      and st: "stale c = length (filter (\<lambda>x. \<not> delivered svc x) (table w))"
      by auto
    have st': "stale c = length (filter (\<lambda>x. post_fault svc (connectionId x) \<noteq> None) (table w))"
      unfolding st d ..
    have rec: "if delete_fault svc cid = None
          then cid \<notin> connectionId ` set (table w')
          else filter (\<lambda>x. connectionId x = cid) (table w') =
               filter (\<lambda>x. connectionId x = cid) (table w) \<and>
               cid \<in> connectionId ` set (table w')"
    proof (cases "delete_fault svc cid = None")
      case True
      then have "reaped svc cid"
        using assms(4,5) by (simp add: reaped_def is_gone_def)
      then have "cid \<notin> connectionId ` set (table w')"
        by (auto simp: tbl)
      then show ?thesis
        by (subst if_P[OF True])
    next
      case False
      then have n: "\<not> reaped svc cid"
        using assms(4) by (simp add: reaped_def)
      have keep: "filter (\<lambda>x. connectionId x = cid) (table w') =
                  filter (\<lambda>x. connectionId x = cid) (table w)"
        unfolding tbl using n by (auto intro: filter_cong)
      have "filter (\<lambda>x. connectionId x = cid) (table w) \<noteq> []"
        using one by auto
      then have "filter (\<lambda>x. connectionId x = cid) (table w') \<noteq> []"
        unfolding keep .
      then have "cid \<in> connectionId ` set (table w')"
        by (auto simp: filter_empty_conv)
      with keep show ?thesis
        by (subst if_not_P[OF False]) simp
    qed
    show ?thesis
      by (intro conjI rec st' once posts one)
  qed
qed

text \<open>
  Scenario A: \<open>c2\<close> is gone; when its delete succeeds \<open>c2\<close> is absent afterwards, when the
  table rejects the delete \<open>c2\<close> is still there.
\<close>

theorem gone_connection_reaped_witness:
  "broadcastToAll svc_mixed w_three msg_test =
     (Inr \<lparr>sent = 1, failed = 0, stale = 2\<rparr>,
      \<lparr>table = [item ''c1'', item ''c3''], scans = 2, uuids_drawn = 0,
       post_attempts = [(''c1'', msg_test), (''c2'', msg_test), (''c3'', msg_test)]\<rparr>) \<and>
   distinct (map connectionId (table w_three)) \<and>
   ''c2'' \<in> connectionId ` set (table w_three) \<and>
   post_fault svc_mixed ''c2'' = Some (Exn ''Gone'' (Some 410) None) \<and>
   delete_fault svc_mixed ''c2'' = None \<and>
   ''c2'' \<notin> connectionId ` set [item ''c1'', item ''c3''] \<and>
   length (filter (\<lambda>x. connectionId x = ''c2'')
             (filter (\<lambda>x. post_fault svc_mixed (connectionId x) \<noteq> None) (table w_three))) = 1 \<and>
   broadcastToAll svc_delete_fails w_three msg_test =
     (Inr \<lparr>sent = 1, failed = 0, stale = 2\<rparr>,
      \<lparr>table = [item ''c1'', item ''c2'', item ''c3''], scans = 2, uuids_drawn = 0,
       post_attempts = [(''c1'', msg_test), (''c2'', msg_test), (''c3'', msg_test)]\<rparr>) \<and>
   post_fault svc_delete_fails ''c2'' = Some (Exn ''Gone'' (Some 410) None) \<and>
   delete_fault svc_delete_fails ''c2'' = Some (Exn ''Throughput exceeded'' (Some 400) None) \<and>
   ''c2'' \<in> connectionId ` set [item ''c1'', item ''c2'', item ''c3'']"
proof -
  let ?gone = "Exn ''Gone'' (Some 410) None"
  have h: "broadcastToAll svc_mixed w_three msg_test =
     (Inr \<lparr>sent = 1, failed = 0, stale = 2\<rparr>,
      \<lparr>table = [item ''c1'', item ''c3''], scans = 2, uuids_drawn = 0,
       post_attempts = [(''c1'', msg_test), (''c2'', msg_test), (''c3'', msg_test)]\<rparr>)"
    by code_simp
  have h2: "broadcastToAll svc_delete_fails w_three msg_test =
     (Inr \<lparr>sent = 1, failed = 0, stale = 2\<rparr>,
      \<lparr>table = [item ''c1'', item ''c2'', item ''c3''], scans = 2, uuids_drawn = 0,
       post_attempts = [(''c1'', msg_test), (''c2'', msg_test), (''c3'', msg_test)]\<rparr>)"
    by code_simp
  have d: "distinct (map connectionId (table w_three))"
    by (simp add: w_three_def item_def)
  have m: "''c2'' \<in> connectionId ` set (table w_three)"
    by (simp add: w_three_def item_def)
  have p: "post_fault svc_mixed ''c2'' = Some ?gone"
    by (simp add: svc_mixed_def)
  have p2: "post_fault svc_delete_fails ''c2'' = Some ?gone"
    by (simp add: svc_delete_fails_def svc_mixed_def)
  have g: "metadata_httpStatusCode ?gone = Some 410 \<or> exn_statusCode ?gone = Some 410"
    by simp
  have f: "delete_fault svc_mixed ''c2'' = None"
    by (simp add: svc_mixed_def svc_ok_def)
  have f2: "delete_fault svc_delete_fails ''c2'' =
            Some (Exn ''Throughput exceeded'' (Some 400) None)"
    by (simp add: svc_delete_fails_def)
  note r = gone_connection_reaped[OF h d m p g]
  note r2 = gone_connection_reaped[OF h2 d m p2 g]
  have a: "''c2'' \<notin> connectionId ` set [item ''c1'', item ''c3'']"
    using r[THEN conjunct1] by (simp add: f)
  have o: "length (filter (\<lambda>x. connectionId x = ''c2'')
             (filter (\<lambda>x. post_fault svc_mixed (connectionId x) \<noteq> None) (table w_three))) = 1"
    using r[THEN conjunct2, THEN conjunct2, THEN conjunct1] .
  have k: "''c2'' \<in> connectionId ` set [item ''c1'', item ''c2'', item ''c3'']"
    using r2[THEN conjunct1] by (simp add: f2)
  show ?thesis
    by (intro conjI h d m p f a o h2 p2 f2 k)
qed

text \<open>
  Claim C2 as stated fails when the table rejects the delete: \<open>removeStaleConnection\<close>
  catches and logs the error, the record of \<open>c2\<close> stays in the table, and \<open>c2\<close> is
  counted in \<open>stale\<close> all the same.
\<close>

theorem gone_connection_kept_when_delete_fails:
  "post_fault svc_delete_fails ''c2'' = Some (Exn ''Gone'' (Some 410) None) \<and>
   broadcastToAll svc_delete_fails w_three msg_test =
     (Inr \<lparr>sent = 1, failed = 0, stale = 2\<rparr>,
      \<lparr>table = [item ''c1'', item ''c2'', item ''c3''], scans = 2, uuids_drawn = 0,
       post_attempts = [(''c1'', msg_test), (''c2'', msg_test), (''c3'', msg_test)]\<rparr>)"
  by code_simp

text \<open>
  Claim C1 on scenario A of the specification. The push to \<open>c3\<close> fails with status 429,
  a transient error. The record of \<open>c3\<close> stays in the table, but the handler reports
  \<open>failed = 0\<close> and \<open>staleRemoved = 2\<close>: \<open>sendToConnection\<close> returns false for \<open>c3\<close>
  as it does for the gone \<open>c2\<close>, and the counting loop books every false under \<open>stale\<close>.
\<close>

theorem scenario_A_transient_counted_as_stale:
  "post_fault svc_mixed ''c3'' = Some (Exn ''Limit exceeded'' (Some 429) None) \<and>
   broadcast_handler svc_mixed env_ok (ev_broadcast body_test) w_three =
     (createCorsResponse 200
        (JObj [(''message'', JStr ''Broadcast completed''),
               (''results'', JObj [(''totalConnections'', JNum 3), (''sent'', JNum 1),
                                   (''failed'', JNum 0), (''staleRemoved'', JNum 2)])])
        (Some ''https://app.example.com''),
      \<lparr>table = [item ''c1'', item ''c3''], scans = 2, uuids_drawn = 0,
       post_attempts = [(''c1'', msg_test), (''c2'', msg_test), (''c3'', msg_test)]\<rparr>)"
  by code_simp


text \<open>
  Claim C3. For a request that passes validation and is logged, a scan that returned
  \<open>conns\<close> and a broadcast that returned the counters \<open>c\<close>: the broadcast issues exactly one
  push per scanned connection (the message built from the request, in scan order); the
  counters add up to the number of connections; the caller receives the 200 response whose
  body reports that number as \<open>totalConnections\<close> beside the three counters; and with no
  connection all counters are 0 and no push is issued.
\<close>

theorem broadcast_covers_every_connection:
  assumes "validateEnvironment env = Inr config"
    and "event_body ev = Some b" and "b \<noteq> []" and "JSON_parse svc b = Inr requestBody"
    and "get_prop requestBody ''type'' = Some type" and "truthy type"
    and "\<not> to_string_throws type"
    and "truthy_opt (get_prop requestBody ''data'')"
    and "getAllConnections svc w = (Inr conns, w1)"
    and "broadcastToAll svc w (WebSocketMessage svc requestBody) = (Inr c, w')"
  shows "map connectionId conns = map connectionId (table w) \<and>
         post_attempts w' =
           post_attempts w @ map (\<lambda>x. (connectionId x, WebSocketMessage svc requestBody)) conns \<and>
         sent c + failed c + stale c = length conns \<and>
         broadcast_handler svc env ev w =
           (\<lparr>statusCode = 200,
             headers = [(''Content-Type'', ''application/json''),
                        (''Access-Control-Allow-Origin'', str_or (CORS_ORIGIN config) ''*''),
                        (''Access-Control-Allow-Headers'', ''Content-Type,Authorization''),
                        (''Access-Control-Allow-Methods'', ''GET,POST,PUT,DELETE,OPTIONS'')],
             body = JObj [(''message'', JStr ''Broadcast completed''),
                          (''results'',
                           JObj [(''totalConnections'', JNum (int (length conns))),
                                 (''sent'', JNum (int (sent c))),
                                 (''failed'', JNum (int (failed c))),
                                 (''staleRemoved'', JNum (int (stale c)))])]\<rparr>,
            w') \<and>
         (if conns = []
          then c = \<lparr>sent = 0, failed = 0, stale = 0\<rparr> \<and> post_attempts w' = post_attempts w
          else True)"
proof -
  let ?msg = "WebSocketMessage svc requestBody"
  have conns: "conns = map project_connectionId (table w)"
    using getAllConnections_spec(4)[OF assms(9)] by simp
  have ids: "map connectionId conns = map connectionId (table w)"
    by (simp add: conns project_connectionId_def)
  have len: "length conns = length (table w)"
    by (simp add: conns)
  have same: "map (\<lambda>x. (connectionId x, ?msg)) conns = map (\<lambda>x. (connectionId x, ?msg)) (table w)"
    by (simp add: conns project_connectionId_def)
  from broadcastToAll_spec[OF assms(9), of ?msg] assms(10)
  have c: "c = \<lparr>sent = length (filter (delivered svc) (table w)),
                failed = 0,
                stale = length (filter (\<lambda>x. \<not> delivered svc x) (table w))\<rparr>"
    and w': "post_attempts w' = post_attempts w @ map (\<lambda>x. (connectionId x, ?msg)) (table w)"
    by auto
  have posts: "post_attempts w' = post_attempts w @ map (\<lambda>x. (connectionId x, ?msg)) conns"
    by (simp only: w' same)
  have sum: "sent c + failed c + stale c = length conns"
    unfolding c len using sum_length_filter_compl[of "delivered svc" "table w"] by simp
  have "broadcast_handler svc env ev w =
          (createCorsResponse 200 (broadcast_results c) (CORS_ORIGIN config), w')"
    by (simp add: broadcast_handler_valid[OF assms(1-8)] assms(10))
  then have run: "broadcast_handler svc env ev w =
           (\<lparr>statusCode = 200,
             headers = [(''Content-Type'', ''application/json''),
                        (''Access-Control-Allow-Origin'', str_or (CORS_ORIGIN config) ''*''),
                        (''Access-Control-Allow-Headers'', ''Content-Type,Authorization''),
                        (''Access-Control-Allow-Methods'', ''GET,POST,PUT,DELETE,OPTIONS'')],
             body = JObj [(''message'', JStr ''Broadcast completed''),
                          (''results'',
                           JObj [(''totalConnections'', JNum (int (length conns))),
                                 (''sent'', JNum (int (sent c))),
                                 (''failed'', JNum (int (failed c))),
                                 (''staleRemoved'', JNum (int (stale c)))])]\<rparr>,
            w')"
    using sum by (simp add: broadcast_results_def createCorsResponse_fields)
  have empty: "if conns = []
          then c = \<lparr>sent = 0, failed = 0, stale = 0\<rparr> \<and> post_attempts w' = post_attempts w
          else True"
    using c posts len by auto
  show ?thesis
    by (intro conjI ids posts sum run empty)
qed

text \<open>
  Scenario A: three connections, three pushes, one each, and a total of 3.
\<close>

theorem broadcast_covers_every_connection_witness:
  "validateEnvironment env_ok =
     Inr \<lparr>DYNAMODB_CONNECTIONS_TABLE = ''connections'',
          WEBSOCKET_API_ENDPOINT = ''https://ws.example.com/prod'',
          CORS_ORIGIN = Some ''https://app.example.com''\<rparr> \<and>
   JSON_parse svc_mixed body_test =
     Inr (JObj [(''type'', JStr ''test''), (''data'', JObj [(''x'', JNum 1)])]) \<and>
   getAllConnections svc_mixed w_three =
     (Inr (map project_connectionId (table w_three)), w_three\<lparr>scans := 2\<rparr>) \<and>
   broadcastToAll svc_mixed w_three msg_test =
     (Inr \<lparr>sent = 1, failed = 0, stale = 2\<rparr>,
      \<lparr>table = [item ''c1'', item ''c3''], scans = 2, uuids_drawn = 0,
       post_attempts = [(''c1'', msg_test), (''c2'', msg_test), (''c3'', msg_test)]\<rparr>) \<and>
   broadcast_handler svc_mixed env_ok (ev_broadcast body_test) w_three =
     (\<lparr>statusCode = 200,
       headers = [(''Content-Type'', ''application/json''),
                  (''Access-Control-Allow-Origin'', ''https://app.example.com''),
                  (''Access-Control-Allow-Headers'', ''Content-Type,Authorization''),
                  (''Access-Control-Allow-Methods'', ''GET,POST,PUT,DELETE,OPTIONS'')],
       body = JObj [(''message'', JStr ''Broadcast completed''),
                    (''results'', JObj [(''totalConnections'', JNum 3), (''sent'', JNum 1),
                                        (''failed'', JNum 0), (''staleRemoved'', JNum 2)])]\<rparr>,
      \<lparr>table = [item ''c1'', item ''c3''], scans = 2, uuids_drawn = 0,
       post_attempts = [(''c1'', msg_test), (''c2'', msg_test), (''c3'', msg_test)]\<rparr>)"
proof -
  let ?rb = "JObj [(''type'', JStr ''test''), (''data'', JObj [(''x'', JNum 1)])]"
  have e: "validateEnvironment env_ok =
     Inr \<lparr>DYNAMODB_CONNECTIONS_TABLE = ''connections'',
          WEBSOCKET_API_ENDPOINT = ''https://ws.example.com/prod'',
          CORS_ORIGIN = Some ''https://app.example.com''\<rparr>"
    by code_simp
  have b: "event_body (ev_broadcast body_test) = Some body_test"
    by (simp add: ev_broadcast_def)
  have n: "body_test \<noteq> []"
    by (simp add: body_test_def)
  have p: "JSON_parse svc_mixed body_test = Inr ?rb"
    by code_simp
  have t: "get_prop ?rb ''type'' = Some (JStr ''test'')" "truthy (JStr ''test'')"
    "\<not> to_string_throws (JStr ''test'')"
    by simp_all
  have d: "truthy_opt (get_prop ?rb ''data'')"
    by simp
  have g: "getAllConnections svc_mixed w_three =
     (Inr (map project_connectionId (table w_three)), w_three\<lparr>scans := 2\<rparr>)"
    by code_simp
  have m: "WebSocketMessage svc_mixed ?rb = msg_test"
    by code_simp
  have h: "broadcastToAll svc_mixed w_three msg_test =
     (Inr \<lparr>sent = 1, failed = 0, stale = 2\<rparr>,
      \<lparr>table = [item ''c1'', item ''c3''], scans = 2, uuids_drawn = 0,
       post_attempts = [(''c1'', msg_test), (''c2'', msg_test), (''c3'', msg_test)]\<rparr>)"
    by code_simp
  have h': "broadcastToAll svc_mixed w_three (WebSocketMessage svc_mixed ?rb) =
     (Inr \<lparr>sent = 1, failed = 0, stale = 2\<rparr>,
      \<lparr>table = [item ''c1'', item ''c3''], scans = 2, uuids_drawn = 0,
       post_attempts = [(''c1'', msg_test), (''c2'', msg_test), (''c3'', msg_test)]\<rparr>)"
    by (simp only: m h)
  have l: "length (table w_three) = 3"
    by (simp add: w_three_def)
  note r = broadcast_covers_every_connection[OF e b n p t d g h',
             THEN conjunct2, THEN conjunct2, THEN conjunct2, THEN conjunct1]
  have x: "broadcast_handler svc_mixed env_ok (ev_broadcast body_test) w_three =
     (\<lparr>statusCode = 200,
       headers = [(''Content-Type'', ''application/json''),
                  (''Access-Control-Allow-Origin'', ''https://app.example.com''),
                  (''Access-Control-Allow-Headers'', ''Content-Type,Authorization''),
                  (''Access-Control-Allow-Methods'', ''GET,POST,PUT,DELETE,OPTIONS'')],
       body = JObj [(''message'', JStr ''Broadcast completed''),
                    (''results'', JObj [(''totalConnections'', JNum 3), (''sent'', JNum 1),
                                        (''failed'', JNum 0), (''staleRemoved'', JNum 2)])]\<rparr>,
      \<lparr>table = [item ''c1'', item ''c3''], scans = 2, uuids_drawn = 0,
       post_attempts = [(''c1'', msg_test), (''c2'', msg_test), (''c3'', msg_test)]\<rparr>)"
    using r by (simp add: l)
  show ?thesis
    by (intro conjI e p g h x)
qed

section \<open>Failures of the table\<close>

lemma handler_catch_explicit:
  "handler_catch failure origin e =
     \<lparr>statusCode = 500,
      headers = [(''Content-Type'', ''application/json''),
                 (''Access-Control-Allow-Origin'', str_or origin ''*''),
                 (''Access-Control-Allow-Headers'', ''Content-Type,Authorization''),
                 (''Access-Control-Allow-Methods'', ''GET,POST,PUT,DELETE,OPTIONS'')],
      body = (if str_includes (exn_message e) ''environment variable''
              then JObj [(''message'', JStr ''Server configuration error'')]
              else JObj ((''message'', JStr failure) #
                         (if exn_message e = [] then []
                          else [(''error'', JStr (exn_message e))])))\<rparr>"
  by (simp add: handler_catch_def createErrorResponse_def createCorsResponse_fields)

text \<open>
  Claim C8, amended. With a valid configuration and a request that reaches the broadcast:
  when the table rejects a Scan request of the enumeration (request number \<open>n\<close>, the earlier
  ones answered: the first request, or the request for a later page that the table has),
  the broadcast handler answers 500 with the \<^verbatim>\<open>catch\<close> response carrying the error's
  message, and nothing is pushed or deleted; a rejected put makes the connect handler
  answer 500 and a rejected delete makes the disconnect handler answer 500. The delete of
  a stale record inside a broadcast is different: when no Scan request is rejected the
  broadcast answers 200, whatever the table does with the deletes.
\<close>

theorem storage_failures_reach_the_caller:
  assumes "validateEnvironment env = Inr config"
    and "event_body ev = Some b" and "b \<noteq> []" and "JSON_parse svc b = Inr requestBody"
    and "get_prop requestBody ''type'' = Some type" and "truthy type"
    and "\<not> to_string_throws type"
    and "truthy_opt (get_prop requestBody ''data'')"
    and "requestContext_connectionId cev = Some cid" and "cid \<noteq> []"
  shows "(if scan_fault svc (page_key svc n) = Some e \<and>
             (\<forall>m<n. scan_fault svc (page_key svc m) = None) \<and>
             (n = 0 \<or> n * max 1 (page_limit svc) < length (table w))
          then fst (broadcast_handler svc env ev w) =
                 \<lparr>statusCode = 500,
               headers = [(''Content-Type'', ''application/json''),
                          (''Access-Control-Allow-Origin'', str_or (env_CORS_ORIGIN env) ''*''),
                          (''Access-Control-Allow-Headers'', ''Content-Type,Authorization''),
                          (''Access-Control-Allow-Methods'', ''GET,POST,PUT,DELETE,OPTIONS'')],
               body = (if str_includes (exn_message e) ''environment variable''
                       then JObj [(''message'', JStr ''Server configuration error'')]
                       else JObj ((''message'', JStr ''Broadcast failed'') #
                                  (if exn_message e = [] then []
                                   else [(''error'', JStr (exn_message e))])))\<rparr> \<and>
               table (snd (broadcast_handler svc env ev w)) = table w \<and>
               post_attempts (snd (broadcast_handler svc env ev w)) = post_attempts w
          else True) \<and>
         (if put_fault svc cid = Some e
          then connect_handler svc env cev w =
                 (\<lparr>statusCode = 500,
               headers = [(''Content-Type'', ''application/json''),
                          (''Access-Control-Allow-Origin'', ''*''),
                          (''Access-Control-Allow-Headers'', ''Content-Type,Authorization''),
                          (''Access-Control-Allow-Methods'', ''GET,POST,PUT,DELETE,OPTIONS'')],
               body = (if str_includes (exn_message e) ''environment variable''
                       then JObj [(''message'', JStr ''Server configuration error'')]
                       else JObj ((''message'', JStr ''Failed to connect'') #
                                  (if exn_message e = [] then []
                                   else [(''error'', JStr (exn_message e))])))\<rparr>, w)
          else True) \<and>
         (if delete_fault svc cid = Some e
          then disconnect_handler svc env cev w =
                 (\<lparr>statusCode = 500,
               headers = [(''Content-Type'', ''application/json''),
                          (''Access-Control-Allow-Origin'', ''*''),
                          (''Access-Control-Allow-Headers'', ''Content-Type,Authorization''),
                          (''Access-Control-Allow-Methods'', ''GET,POST,PUT,DELETE,OPTIONS'')],
               body = (if str_includes (exn_message e) ''environment variable''
                       then JObj [(''message'', JStr ''Server configuration error'')]
                       else JObj ((''message'', JStr ''Failed to disconnect'') #
                                  (if exn_message e = [] then []
                                   else [(''error'', JStr (exn_message e))])))\<rparr>, w)
          else True) \<and>
         (if \<forall>k. scan_fault svc k = None
          then statusCode (fst (broadcast_handler svc env ev w)) = 200
          else True)"
proof -
  note valid = broadcast_handler_valid[OF assms(1-8)]
  have scan: "fst (broadcast_handler svc env ev w) =
                 \<lparr>statusCode = 500,
               headers = [(''Content-Type'', ''application/json''),
                          (''Access-Control-Allow-Origin'', str_or (env_CORS_ORIGIN env) ''*''),
                          (''Access-Control-Allow-Headers'', ''Content-Type,Authorization''),
                          (''Access-Control-Allow-Methods'', ''GET,POST,PUT,DELETE,OPTIONS'')],
               body = (if str_includes (exn_message e) ''environment variable''
                       then JObj [(''message'', JStr ''Server configuration error'')]
                       else JObj ((''message'', JStr ''Broadcast failed'') #
                                  (if exn_message e = [] then []
                                   else [(''error'', JStr (exn_message e))])))\<rparr> \<and>
               table (snd (broadcast_handler svc env ev w)) = table w \<and>
               post_attempts (snd (broadcast_handler svc env ev w)) = post_attempts w"
    if c: "scan_fault svc (page_key svc n) = Some e \<and>
             (\<forall>m<n. scan_fault svc (page_key svc m) = None) \<and>
             (n = 0 \<or> n * max 1 (page_limit svc) < length (table w))"
  proof -
    from c have f: "scan_fault svc (page_key svc n) = Some e"
      and g: "\<forall>m<n. scan_fault svc (page_key svc m) = None"
      and h: "n = 0 \<or> n * max 1 (page_limit svc) < length (table w)"
      by blast+
    from getAllConnections_fault[OF f g h]
    obtain w1 where g1: "getAllConnections svc w = (Inl e, w1)"
      and t1: "table w1 = table w" and p1: "post_attempts w1 = post_attempts w"
      by blast
    have "broadcast_handler svc env ev w =
            (handler_catch ''Broadcast failed'' (env_CORS_ORIGIN env) e, w1)"
      by (simp add: valid broadcastToAll_error[OF g1])
    then show ?thesis
      by (simp add: handler_catch_explicit t1 p1)
  qed
  have ok: "statusCode (fst (broadcast_handler svc env ev w)) = 200"
    if "\<forall>k. scan_fault svc k = None"
  proof -
    from getAllConnections_total[OF that, of w]
    have "getAllConnections svc w =
            (Inr (map project_connectionId (table w)), snd (getAllConnections svc w))"
      by (metis surjective_pairing)
    from broadcastToAll_spec[OF this] show ?thesis
      by (simp add: valid createCorsResponse_fields)
  qed
  have put: "connect_handler svc env cev w =
                 (\<lparr>statusCode = 500,
               headers = [(''Content-Type'', ''application/json''),
                          (''Access-Control-Allow-Origin'', ''*''),
                          (''Access-Control-Allow-Headers'', ''Content-Type,Authorization''),
                          (''Access-Control-Allow-Methods'', ''GET,POST,PUT,DELETE,OPTIONS'')],
               body = (if str_includes (exn_message e) ''environment variable''
                       then JObj [(''message'', JStr ''Server configuration error'')]
                       else JObj ((''message'', JStr ''Failed to connect'') #
                                  (if exn_message e = [] then []
                                   else [(''error'', JStr (exn_message e))])))\<rparr>, w)"
    if "put_fault svc cid = Some e"
    using that assms(1,9,10)
    by (simp add: connect_handler_def dynamo_put_def handler_catch_explicit)
  have del: "disconnect_handler svc env cev w =
                 (\<lparr>statusCode = 500,
               headers = [(''Content-Type'', ''application/json''),
                          (''Access-Control-Allow-Origin'', ''*''),
                          (''Access-Control-Allow-Headers'', ''Content-Type,Authorization''),
                          (''Access-Control-Allow-Methods'', ''GET,POST,PUT,DELETE,OPTIONS'')],
               body = (if str_includes (exn_message e) ''environment variable''
                       then JObj [(''message'', JStr ''Server configuration error'')]
                       else JObj ((''message'', JStr ''Failed to disconnect'') #
                                  (if exn_message e = [] then []
                                   else [(''error'', JStr (exn_message e))])))\<rparr>, w)"
    if "delete_fault svc cid = Some e"
    using that assms(1,9,10)
    by (simp add: disconnect_handler_def dynamo_delete_def handler_catch_explicit)
  show ?thesis
  proof (intro conjI)
    show "if scan_fault svc (page_key svc n) = Some e \<and>
             (\<forall>m<n. scan_fault svc (page_key svc m) = None) \<and>
             (n = 0 \<or> n * max 1 (page_limit svc) < length (table w))
          then fst (broadcast_handler svc env ev w) =
                 \<lparr>statusCode = 500,
               headers = [(''Content-Type'', ''application/json''),
                          (''Access-Control-Allow-Origin'', str_or (env_CORS_ORIGIN env) ''*''),
                          (''Access-Control-Allow-Headers'', ''Content-Type,Authorization''),
                          (''Access-Control-Allow-Methods'', ''GET,POST,PUT,DELETE,OPTIONS'')],
               body = (if str_includes (exn_message e) ''environment variable''
                       then JObj [(''message'', JStr ''Server configuration error'')]
                       else JObj ((''message'', JStr ''Broadcast failed'') #
                                  (if exn_message e = [] then []
                                   else [(''error'', JStr (exn_message e))])))\<rparr> \<and>
               table (snd (broadcast_handler svc env ev w)) = table w \<and>
               post_attempts (snd (broadcast_handler svc env ev w)) = post_attempts w
          else True"
    proof (cases "scan_fault svc (page_key svc n) = Some e \<and>
             (\<forall>m<n. scan_fault svc (page_key svc m) = None) \<and>
             (n = 0 \<or> n * max 1 (page_limit svc) < length (table w))")
      case True
      show ?thesis
        by (subst if_P[OF True]) (rule scan[OF True])
    next
      case False
      show ?thesis
        by (subst if_not_P[OF False]) (rule TrueI)
    qed
    show "if put_fault svc cid = Some e
          then connect_handler svc env cev w =
                 (\<lparr>statusCode = 500,
               headers = [(''Content-Type'', ''application/json''),
                          (''Access-Control-Allow-Origin'', ''*''),
                          (''Access-Control-Allow-Headers'', ''Content-Type,Authorization''),
                          (''Access-Control-Allow-Methods'', ''GET,POST,PUT,DELETE,OPTIONS'')],
               body = (if str_includes (exn_message e) ''environment variable''
                       then JObj [(''message'', JStr ''Server configuration error'')]
                       else JObj ((''message'', JStr ''Failed to connect'') #
                                  (if exn_message e = [] then []
                                   else [(''error'', JStr (exn_message e))])))\<rparr>, w)
          else True"
    proof (cases "put_fault svc cid = Some e")
      case True
      show ?thesis
        by (subst if_P[OF True]) (rule put[OF True])
    next
      case False
      show ?thesis
        by (subst if_not_P[OF False]) (rule TrueI)
    qed
    show "if delete_fault svc cid = Some e
          then disconnect_handler svc env cev w =
                 (\<lparr>statusCode = 500,
               headers = [(''Content-Type'', ''application/json''),
                          (''Access-Control-Allow-Origin'', ''*''),
                          (''Access-Control-Allow-Headers'', ''Content-Type,Authorization''),
                          (''Access-Control-Allow-Methods'', ''GET,POST,PUT,DELETE,OPTIONS'')],
               body = (if str_includes (exn_message e) ''environment variable''
                       then JObj [(''message'', JStr ''Server configuration error'')]
                       else JObj ((''message'', JStr ''Failed to disconnect'') #
                                  (if exn_message e = [] then []
                                   else [(''error'', JStr (exn_message e))])))\<rparr>, w)
          else True"
    proof (cases "delete_fault svc cid = Some e")
      case True
      show ?thesis
        by (subst if_P[OF True]) (rule del[OF True])
    next
      case False
      show ?thesis
        by (subst if_not_P[OF False]) (rule TrueI)
    qed
    show "if \<forall>k. scan_fault svc k = None
          then statusCode (fst (broadcast_handler svc env ev w)) = 200
          else True"
    proof (cases "\<forall>k. scan_fault svc k = None")
      case True
      show ?thesis
        by (subst if_P[OF True]) (rule ok[OF True])
    next
      case False
      show ?thesis
        by (subst if_not_P[OF False]) (rule TrueI)
    qed
  qed
qed

text \<open>
  Three connections in pages of two: the table rejects the Scan request for the second
  page, and the broadcast answers 500 with nothing pushed. A table that rejects every
  request gives 500 from the connect and the disconnect handler. A table that rejects
  only the delete of the stale \<open>c2\<close> gives 200 from the broadcast.
\<close>

theorem storage_failures_reach_the_caller_witness:
  "page_key svc_second_page_fails 1 = Some 2 \<and>
   scan_fault svc_second_page_fails None = None \<and>
   scan_fault svc_second_page_fails (Some 2) = Some (Exn ''Throughput exceeded'' (Some 400) None) \<and>
   fst (broadcast_handler svc_second_page_fails env_ok (ev_broadcast body_test) w_three) =
     \<lparr>statusCode = 500,
       headers = [(''Content-Type'', ''application/json''),
                          (''Access-Control-Allow-Origin'', ''https://app.example.com''),
                          (''Access-Control-Allow-Headers'', ''Content-Type,Authorization''),
                          (''Access-Control-Allow-Methods'', ''GET,POST,PUT,DELETE,OPTIONS'')],
       body = JObj [(''message'', JStr ''Broadcast failed''), (''error'', JStr ''Throughput exceeded'')]\<rparr> \<and>
   table (snd (broadcast_handler svc_second_page_fails env_ok (ev_broadcast body_test) w_three)) =
     table w_three \<and>
   post_attempts (snd (broadcast_handler svc_second_page_fails env_ok (ev_broadcast body_test)
                         w_three)) = [] \<and>
   connect_handler svc_table_down env_ok (ev_inbound ''c9'' None) w_three =
     (\<lparr>statusCode = 500,
       headers = [(''Content-Type'', ''application/json''),
                          (''Access-Control-Allow-Origin'', ''*''),
                          (''Access-Control-Allow-Headers'', ''Content-Type,Authorization''),
                          (''Access-Control-Allow-Methods'', ''GET,POST,PUT,DELETE,OPTIONS'')],
       body = JObj [(''message'', JStr ''Failed to connect''), (''error'', JStr ''Requested resource not found'')]\<rparr>,
      w_three) \<and>
   disconnect_handler svc_table_down env_ok (ev_inbound ''c9'' None) w_three =
     (\<lparr>statusCode = 500,
       headers = [(''Content-Type'', ''application/json''),
                          (''Access-Control-Allow-Origin'', ''*''),
                          (''Access-Control-Allow-Headers'', ''Content-Type,Authorization''),
                          (''Access-Control-Allow-Methods'', ''GET,POST,PUT,DELETE,OPTIONS'')],
       body = JObj [(''message'', JStr ''Failed to disconnect''), (''error'', JStr ''Requested resource not found'')]\<rparr>,
      w_three) \<and>
   delete_fault svc_delete_fails ''c2'' = Some (Exn ''Throughput exceeded'' (Some 400) None) \<and>
   statusCode (fst (broadcast_handler svc_delete_fails env_ok (ev_broadcast body_test) w_three)) = 200"
proof -
  let ?rb = "JObj [(''type'', JStr ''test''), (''data'', JObj [(''x'', JNum 1)])]"
  let ?e = "Exn ''Requested resource not found'' (Some 400) None"
  let ?t = "Exn ''Throughput exceeded'' (Some 400) None"
  have e: "validateEnvironment env_ok =
     Inr \<lparr>DYNAMODB_CONNECTIONS_TABLE = ''connections'',
          WEBSOCKET_API_ENDPOINT = ''https://ws.example.com/prod'',
          CORS_ORIGIN = Some ''https://app.example.com''\<rparr>"
    by code_simp
  have b: "event_body (ev_broadcast body_test) = Some body_test"
    by (simp add: ev_broadcast_def)
  have n: "body_test \<noteq> []"
    by (simp add: body_test_def)
  have p0: "JSON_parse svc_second_page_fails body_test = Inr ?rb"
    by code_simp
  have p1: "JSON_parse svc_table_down body_test = Inr ?rb"
    by code_simp
  have p2: "JSON_parse svc_delete_fails body_test = Inr ?rb"
    by code_simp
  have t: "get_prop ?rb ''type'' = Some (JStr ''test'')" "truthy (JStr ''test'')"
    "\<not> to_string_throws (JStr ''test'')"
    by simp_all
  have d: "truthy_opt (get_prop ?rb ''data'')"
    by simp
  have c: "requestContext_connectionId (ev_inbound ''c9'' None) = Some ''c9''"
    by (simp add: ev_inbound_def)
  have m: "''c9'' \<noteq> []"
    by simp
  have k: "page_key svc_second_page_fails 1 = Some 2"
    by (simp add: page_key_def svc_second_page_fails_def svc_ok_def)
  have s0: "scan_fault svc_second_page_fails None = None"
    by (simp add: svc_second_page_fails_def)
  have s2: "scan_fault svc_second_page_fails (Some 2) = Some ?t"
    by (simp add: svc_second_page_fails_def)
  have cond: "scan_fault svc_second_page_fails (page_key svc_second_page_fails 1) = Some ?t \<and>
              (\<forall>m<1. scan_fault svc_second_page_fails (page_key svc_second_page_fails m) = None) \<and>
              ((1::nat) = 0 \<or>
               1 * max 1 (page_limit svc_second_page_fails) < length (table w_three))"
    by (simp add: k s2) (simp add: page_key_def svc_second_page_fails_def svc_ok_def w_three_def)
  have o: "str_or (env_CORS_ORIGIN env_ok) ''*'' = ''https://app.example.com''"
    by code_simp
  have i: "\<not> str_includes ''Throughput exceeded'' ''environment variable''"
    "\<not> str_includes ''Requested resource not found'' ''environment variable''"
    by code_simp+
  note r0 = storage_failures_reach_the_caller[OF e b n p0 t d c m,
              of 1 ?t w_three, THEN conjunct1, unfolded if_P[OF cond]]
  have x0: "fst (broadcast_handler svc_second_page_fails env_ok (ev_broadcast body_test) w_three) =
     \<lparr>statusCode = 500,
       headers = [(''Content-Type'', ''application/json''),
                          (''Access-Control-Allow-Origin'', ''https://app.example.com''),
                          (''Access-Control-Allow-Headers'', ''Content-Type,Authorization''),
                          (''Access-Control-Allow-Methods'', ''GET,POST,PUT,DELETE,OPTIONS'')],
       body = JObj [(''message'', JStr ''Broadcast failed''), (''error'', JStr ''Throughput exceeded'')]\<rparr>"
    using r0[THEN conjunct1] by (simp add: o i)
  have x0t: "table (snd (broadcast_handler svc_second_page_fails env_ok (ev_broadcast body_test)
               w_three)) = table w_three"
    using r0[THEN conjunct2, THEN conjunct1] .
  have x0p: "post_attempts (snd (broadcast_handler svc_second_page_fails env_ok
               (ev_broadcast body_test) w_three)) = []"
    using r0[THEN conjunct2, THEN conjunct2] by (simp add: w_three_def)
  have f: "put_fault svc_table_down ''c9'' = Some ?e" "delete_fault svc_table_down ''c9'' = Some ?e"
    by (simp_all add: svc_table_down_def)
  note sc = storage_failures_reach_the_caller[OF e b n p1 t d c m,
              of _ ?e, THEN conjunct2, THEN conjunct1, unfolded if_P[OF f(1)]]
  note sd = storage_failures_reach_the_caller[OF e b n p1 t d c m,
              of _ ?e, THEN conjunct2, THEN conjunct2, THEN conjunct1, unfolded if_P[OF f(2)]]
  have xc: "connect_handler svc_table_down env_ok (ev_inbound ''c9'' None) w_three =
     (\<lparr>statusCode = 500,
       headers = [(''Content-Type'', ''application/json''),
                          (''Access-Control-Allow-Origin'', ''*''),
                          (''Access-Control-Allow-Headers'', ''Content-Type,Authorization''),
                          (''Access-Control-Allow-Methods'', ''GET,POST,PUT,DELETE,OPTIONS'')],
       body = JObj [(''message'', JStr ''Failed to connect''), (''error'', JStr ''Requested resource not found'')]\<rparr>,
      w_three)"
    using sc[of w_three] by (simp add: i)
  have xd: "disconnect_handler svc_table_down env_ok (ev_inbound ''c9'' None) w_three =
     (\<lparr>statusCode = 500,
       headers = [(''Content-Type'', ''application/json''),
                          (''Access-Control-Allow-Origin'', ''*''),
                          (''Access-Control-Allow-Headers'', ''Content-Type,Authorization''),
                          (''Access-Control-Allow-Methods'', ''GET,POST,PUT,DELETE,OPTIONS'')],
       body = JObj [(''message'', JStr ''Failed to disconnect''), (''error'', JStr ''Requested resource not found'')]\<rparr>,
      w_three)"
    using sd[of w_three] by (simp add: i)
  have df: "delete_fault svc_delete_fails ''c2'' = Some ?t"
    by (simp add: svc_delete_fails_def)
  have all: "\<forall>k. scan_fault svc_delete_fails k = None"
    by (simp add: svc_delete_fails_def svc_mixed_def svc_ok_def)
  note sk = storage_failures_reach_the_caller[OF e b n p2 t d c m,
              THEN conjunct2, THEN conjunct2, THEN conjunct2, unfolded if_P[OF all]]
  have x2: "statusCode (fst (broadcast_handler svc_delete_fails env_ok (ev_broadcast body_test)
              w_three)) = 200"
    using sk .
  show ?thesis
    by (intro conjI k s0 s2 x0 x0t x0p xc xd df x2)
qed

text \<open>
  Claim C8 as stated fails for the delete of a stale record: the table rejects the delete
  of \<open>c2\<close> during the broadcast, and the caller gets the 200 response with
  \<open>staleRemoved = 2\<close>; the record of \<open>c2\<close> is still in the table.
\<close>

theorem stale_delete_failure_swallowed:
  "post_fault svc_delete_fails ''c2'' = Some (Exn ''Gone'' (Some 410) None) \<and>
   delete_fault svc_delete_fails ''c2'' = Some (Exn ''Throughput exceeded'' (Some 400) None) \<and>
   broadcast_handler svc_delete_fails env_ok (ev_broadcast body_test) w_three =
     (\<lparr>statusCode = 200,
       headers = [(''Content-Type'', ''application/json''),
                  (''Access-Control-Allow-Origin'', ''https://app.example.com''),
                  (''Access-Control-Allow-Headers'', ''Content-Type,Authorization''),
                  (''Access-Control-Allow-Methods'', ''GET,POST,PUT,DELETE,OPTIONS'')],
       body = JObj [(''message'', JStr ''Broadcast completed''),
                    (''results'', JObj [(''totalConnections'', JNum 3), (''sent'', JNum 1),
                                        (''failed'', JNum 0), (''staleRemoved'', JNum 2)])]\<rparr>,
      \<lparr>table = [item ''c1'', item ''c2'', item ''c3''], scans = 2, uuids_drawn = 0,
       post_attempts = [(''c1'', msg_test), (''c2'', msg_test), (''c3'', msg_test)]\<rparr>)"
  by code_simp

section \<open>Validation of the broadcast request\<close>

text \<open>
  Claim C10. For a parsed, non-null request body the handler answers 400 "Missing required
  fields" exactly when \<open>type\<close> or \<open>data\<close> is falsy, and a falsy value is a missing
  property, \<open>null\<close>, 0, the empty string or \<open>false\<close>; with both truthy (an empty object
  is truthy) the answer is not a 400.
\<close>

theorem validation_tests_truthiness:
  assumes "validateEnvironment env = Inr config"
    and "event_body ev = Some b" and "b \<noteq> []" and "JSON_parse svc b = Inr requestBody"
    and "requestBody \<noteq> JNull"
  shows "(if truthy_opt (get_prop requestBody ''type'') \<and> truthy_opt (get_prop requestBody ''data'')
          then statusCode (fst (broadcast_handler svc env ev w)) \<noteq> 400
          else broadcast_handler svc env ev w =
                 (createErrorResponse 400 ''Missing required fields: type, data'' None
                    (CORS_ORIGIN config), w)) \<and>
         statusCode (createErrorResponse 400 ''Missing required fields: type, data'' None
                       (CORS_ORIGIN config)) = 400 \<and>
         truthy_opt None = False \<and>
         truthy_opt (Some JNull) = False \<and>
         truthy_opt (Some (JNum 0)) = False \<and>
         truthy_opt (Some (JStr [])) = False \<and>
         truthy_opt (Some (JBool False)) = False \<and>
         truthy_opt (Some (JObj [])) = True"
proof -
  have st: "statusCode (createCorsResponse code bd origin) = code" for code bd origin
    by (simp add: createCorsResponse_def createResponse_def)
  have gate: "if truthy_opt (get_prop requestBody ''type'') \<and>
                 truthy_opt (get_prop requestBody ''data'')
          then statusCode (fst (broadcast_handler svc env ev w)) \<noteq> 400
          else broadcast_handler svc env ev w =
                 (createErrorResponse 400 ''Missing required fields: type, data'' None
                    (CORS_ORIGIN config), w)"
  proof (cases "truthy_opt (get_prop requestBody ''type'') \<and>
                truthy_opt (get_prop requestBody ''data'')")
    case True
    then have v: "truthy_opt (get_prop requestBody ''type'')"
      "truthy_opt (get_prop requestBody ''data'')"
      by simp_all
    from v(1) obtain type where ty: "get_prop requestBody ''type'' = Some type" "truthy type"
      by (cases "get_prop requestBody ''type''") simp_all
    obtain r w1 where bc: "broadcastToAll svc w (WebSocketMessage svc requestBody) = (r, w1)"
      by (cases "broadcastToAll svc w (WebSocketMessage svc requestBody)")
    have "statusCode (fst (broadcast_handler svc env ev w)) \<noteq> 400"
    proof (cases "to_string_throws type")
      case True
      show ?thesis
        unfolding broadcast_handler_unconvertible[OF assms(1-4) ty True v(2)]
        by (simp add: handler_catch_status)
    next
      case False
      show ?thesis
        unfolding broadcast_handler_valid[OF assms(1-4) ty False v(2)] bc
        by (cases r) (simp_all add: handler_catch_status st)
    qed
    with True show ?thesis by simp
  next
    case False
    from broadcast_handler_invalid[OF assms(1-5) False, of w] False show ?thesis by auto
  qed
  have code: "statusCode (createErrorResponse 400 ''Missing required fields: type, data'' None
                       (CORS_ORIGIN config)) = 400"
    by (simp add: createErrorResponse_def st)
  show ?thesis
    by (intro conjI gate code) simp_all
qed

text \<open>
  \<open>data\<close> present but 0 is rejected; \<open>data\<close> an empty object passes.
\<close>

theorem validation_tests_truthiness_witness:
  "broadcast_handler svc_ok env_ok (ev_broadcast body_zero_data) w_two =
     (createErrorResponse 400 ''Missing required fields: type, data'' None
        (Some ''https://app.example.com''), w_two) \<and>
   JSON_parse svc_ok body_empty_data = Inr (JObj [(''type'', JStr ''test''), (''data'', JObj [])]) \<and>
   statusCode (fst (broadcast_handler svc_ok env_ok (ev_broadcast body_empty_data) w_two)) \<noteq> 400"
proof -
  let ?zero = "JObj [(''type'', JStr ''test''), (''data'', JNum 0)]"
  let ?empty = "JObj [(''type'', JStr ''test''), (''data'', JObj [])]"
  have e: "validateEnvironment env_ok =
     Inr \<lparr>DYNAMODB_CONNECTIONS_TABLE = ''connections'',
          WEBSOCKET_API_ENDPOINT = ''https://ws.example.com/prod'',
          CORS_ORIGIN = Some ''https://app.example.com''\<rparr>"
    by code_simp
  have b: "event_body (ev_broadcast bd) = Some bd" for bd
    by (simp add: ev_broadcast_def)
  have n: "body_zero_data \<noteq> []" "body_empty_data \<noteq> []"
    by (simp_all add: body_zero_data_def body_empty_data_def)
  have p0: "JSON_parse svc_ok body_zero_data = Inr ?zero"
    by code_simp
  have p1: "JSON_parse svc_ok body_empty_data = Inr ?empty"
    by code_simp
  have z: "?zero \<noteq> JNull" "?empty \<noteq> JNull"
    by simp_all
  note g0 = validation_tests_truthiness[OF e b n(1) p0 z(1), of w_two, THEN conjunct1]
  note g1 = validation_tests_truthiness[OF e b n(2) p1 z(2), of w_two, THEN conjunct1]
  have x0: "broadcast_handler svc_ok env_ok (ev_broadcast body_zero_data) w_two =
     (createErrorResponse 400 ''Missing required fields: type, data'' None
        (Some ''https://app.example.com''), w_two)"
    using g0 by simp
  have x1: "statusCode (fst (broadcast_handler svc_ok env_ok (ev_broadcast body_empty_data)
              w_two)) \<noteq> 400"
    using g1 by simp
  show ?thesis
    by (intro conjI x0 p1 x1)
qed

section \<open>The serverless broadcast\<close>











lemma WebSocketMessage_members:
  "get_prop (WebSocketMessage svc requestBody) ''id'' = None"
  "get_prop (WebSocketMessage svc requestBody) ''source'' = None"
  by (cases "get_prop requestBody ''type''"; cases "get_prop requestBody ''data''";
      simp add: WebSocketMessage_def)+





text \<open>
  Claim C4 on the serverless entry point, with a request that has no \<open>data\<close>: the handler
  does not test \<open>type\<close> and \<open>data\<close>; it scans the table, pushes an envelope without
  \<open>data\<close> to both connections and answers 200. (The aws-sam entry point rejects the same
  request with 400 and touches nothing: \<open>broadcast_handler_invalid\<close>.)
\<close>

theorem serverless_broadcast_accepts_missing_data:
  "JSON_parse svc_ok body_no_data = Inr (JObj [(''type'', JStr ''test'')]) \<and>
   serverless_broadcastToAll svc_ok env_ok (ev_broadcast body_no_data) w_two =
     (serverless_response 200
        [(''Access-Control-Allow-Origin'', ''https://app.example.com''),
         (''Access-Control-Allow-Headers'', ''Content-Type,Authorization''),
         (''Access-Control-Allow-Methods'', ''POST,OPTIONS'')]
        (JObj [(''message'', JStr ''Broadcast completed''), (''connectionCount'', JNum 2)]),
      \<lparr>table = [item ''c1'', item ''c2''], scans = 1, uuids_drawn = 1,
       post_attempts =
         [(''c1'', JObj [(''type'', JStr ''test''), (''version'', JStr ''1''),
                         (''id'', JStr ''6f1c2a9e-0000-4000-8000-000000000001''),
                         (''timestamp'', JStr ''2024-01-01T00:00:00.000Z''),
                         (''source'', JStr ''backend'')]),
          (''c2'', JObj [(''type'', JStr ''test''), (''version'', JStr ''1''),
                         (''id'', JStr ''6f1c2a9e-0000-4000-8000-000000000001''),
                         (''timestamp'', JStr ''2024-01-01T00:00:00.000Z''),
                         (''source'', JStr ''backend'')])]\<rparr>)"
  by code_simp

text \<open>
  Claim C6 on the serverless entry point, with three records and pages of two: the handler
  sends a single Scan and never follows \<open>LastEvaluatedKey\<close>, so it pushes to \<open>c1\<close> and
  \<open>c2\<close> only and reports two connections. (The aws-sam \<open>getAllConnections\<close> follows the
  keys and returns every record, \<open>getAllConnections_total\<close>; its broadcast reaches all
  three.)
\<close>

theorem serverless_scan_stops_after_first_page:
  "page_limit svc_ok = 2 \<and>
   map connectionId (table w_three) = [''c1'', ''c2'', ''c3''] \<and>
   map fst (post_attempts (snd (serverless_broadcastToAll svc_ok env_ok (ev_broadcast body_test)
                                  w_three))) = [''c1'', ''c2''] \<and>
   body (fst (serverless_broadcastToAll svc_ok env_ok (ev_broadcast body_test) w_three)) =
     JObj [(''message'', JStr ''Broadcast completed''), (''connectionCount'', JNum 2)] \<and>
   scans (snd (serverless_broadcastToAll svc_ok env_ok (ev_broadcast body_test) w_three)) = 1 \<and>
   map fst (post_attempts (snd (broadcast_handler svc_ok env_ok (ev_broadcast body_test)
                                  w_three))) = [''c1'', ''c2'', ''c3'']"
  by code_simp

section \<open>The inbound message handlers\<close>

text \<open>
  Claim C7, amended. With a connection id (and, for aws-sam, a valid configuration): when
  \<open>JSON.parse\<close> rejects the body, both handlers push nothing and answer 500. The
  serverless handler's body is "Failed to process message" with the error's message; so
  is the aws-sam handler's, unless the error's message contains "environment variable":
  then it is "Server configuration error". Only a missing or empty body is replaced by
  \<open>{}\<close>: then both handlers push their echo envelope to the same connection and, the
  push delivered, answer 200.
\<close>

theorem default_handler_body_handling:
  assumes "requestContext_connectionId ev = Some cid" and "cid \<noteq> []"
    and "validateEnvironment env = Inr config"
  shows "(if JSON_parse svc (str_or (event_body ev) ''{}'') = Inl e
          then default_handler svc env ev w =
                 (\<lparr>statusCode = 500,
                   headers = [(''Content-Type'', ''application/json''),
                              (''Access-Control-Allow-Origin'', ''*''),
                              (''Access-Control-Allow-Headers'', ''Content-Type,Authorization''),
                              (''Access-Control-Allow-Methods'', ''GET,POST,PUT,DELETE,OPTIONS'')],
                   body = (if str_includes (exn_message e) ''environment variable''
                           then JObj [(''message'', JStr ''Server configuration error'')]
                           else JObj ((''message'', JStr ''Failed to process message'') #
                                      (if exn_message e = [] then []
                                       else [(''error'', JStr (exn_message e))])))\<rparr>, w) \<and>
               serverless_default_handler svc ev w =
                 (\<lparr>statusCode = 500, headers = [],
                   body = JObj [(''message'', JStr ''Failed to process message''),
                                (''error'', JStr (exn_message e))]\<rparr>, w)
          else True) \<and>
         (if truthy_str (event_body ev) then True
          else if JSON_parse svc ''{}'' = Inr (JObj []) \<and> post_fault svc cid = None
          then default_handler svc env ev w =
                 (\<lparr>statusCode = 200, headers = [(''Content-Type'', ''application/json'')],
                   body = JObj [(''message'', JStr ''Message processed'')]\<rparr>,
                  w\<lparr>post_attempts := post_attempts w @
                     [(cid, JObj [(''type'', JStr ''echo''),
                                  (''data'', JObj [(''message'', JStr ''Message received''),
                                                   (''original'', JObj []),
                                                   (''connectionId'', JStr cid)]),
                                  (''timestamp'', JStr (now_iso svc))])]\<rparr>) \<and>
               serverless_default_handler svc ev w =
                 (\<lparr>statusCode = 200, headers = [],
                   body = JObj [(''message'', JStr ''Message processed'')]\<rparr>,
                  w\<lparr>uuids_drawn := Suc (uuids_drawn w),
                    post_attempts := post_attempts w @
                     [(cid, JObj [(''type'', JStr ''echo''),
                                  (''version'', JStr ''1''),
                                  (''id'', JStr (randomUUID svc (uuids_drawn w))),
                                  (''timestamp'', JStr (now_iso svc)),
                                  (''source'', JStr ''backend''),
                                  (''data'', JObj [(''message'', JStr ''Message received'')])])]\<rparr>)
          else True)"
proof -
  have c: "truthy_str (requestContext_connectionId ev)"
    using assms(1,2) by simp
  have bad: "default_handler svc env ev w =
                 (\<lparr>statusCode = 500,
                   headers = [(''Content-Type'', ''application/json''),
                              (''Access-Control-Allow-Origin'', ''*''),
                              (''Access-Control-Allow-Headers'', ''Content-Type,Authorization''),
                              (''Access-Control-Allow-Methods'', ''GET,POST,PUT,DELETE,OPTIONS'')],
                   body = (if str_includes (exn_message e) ''environment variable''
                           then JObj [(''message'', JStr ''Server configuration error'')]
                           else JObj ((''message'', JStr ''Failed to process message'') #
                                      (if exn_message e = [] then []
                                       else [(''error'', JStr (exn_message e))])))\<rparr>, w) \<and>
             serverless_default_handler svc ev w =
                 (\<lparr>statusCode = 500, headers = [],
                   body = JObj [(''message'', JStr ''Failed to process message''),
                                (''error'', JStr (exn_message e))]\<rparr>, w)"
    if "JSON_parse svc (str_or (event_body ev) ''{}'') = Inl e"
    using that c assms(3)
    by (simp add: default_handler_def serverless_default_handler_def handler_catch_explicit
                  serverless_response_def)
  have empty: "default_handler svc env ev w =
                 (\<lparr>statusCode = 200, headers = [(''Content-Type'', ''application/json'')],
                   body = JObj [(''message'', JStr ''Message processed'')]\<rparr>,
                  w\<lparr>post_attempts := post_attempts w @
                     [(cid, JObj [(''type'', JStr ''echo''),
                                  (''data'', JObj [(''message'', JStr ''Message received''),
                                                   (''original'', JObj []),
                                                   (''connectionId'', JStr cid)]),
                                  (''timestamp'', JStr (now_iso svc))])]\<rparr>) \<and>
               serverless_default_handler svc ev w =
                 (\<lparr>statusCode = 200, headers = [],
                   body = JObj [(''message'', JStr ''Message processed'')]\<rparr>,
                  w\<lparr>uuids_drawn := Suc (uuids_drawn w),
                    post_attempts := post_attempts w @
                     [(cid, JObj [(''type'', JStr ''echo''),
                                  (''version'', JStr ''1''),
                                  (''id'', JStr (randomUUID svc (uuids_drawn w))),
                                  (''timestamp'', JStr (now_iso svc)),
                                  (''source'', JStr ''backend''),
                                  (''data'', JObj [(''message'', JStr ''Message received'')])])]\<rparr>)"
    if "\<not> truthy_str (event_body ev)" and "JSON_parse svc ''{}'' = Inr (JObj [])"
      and "post_fault svc cid = None"
  proof -
    have "str_or (event_body ev) ''{}'' = ''{}''"
      using that(1) by (cases "event_body ev") (simp_all split: if_splits)
    then show ?thesis
      using that(2,3) c assms
      by (simp add: default_handler_def serverless_default_handler_def post_to_connection_def
                    draw_randomUUID_def serverless_echo_def echo_message_def
                    serverless_response_def createResponse_def)
  qed
  have g1: "if JSON_parse svc (str_or (event_body ev) ''{}'') = Inl e
          then default_handler svc env ev w =
                 (\<lparr>statusCode = 500,
                   headers = [(''Content-Type'', ''application/json''),
                              (''Access-Control-Allow-Origin'', ''*''),
                              (''Access-Control-Allow-Headers'', ''Content-Type,Authorization''),
                              (''Access-Control-Allow-Methods'', ''GET,POST,PUT,DELETE,OPTIONS'')],
                   body = (if str_includes (exn_message e) ''environment variable''
                           then JObj [(''message'', JStr ''Server configuration error'')]
                           else JObj ((''message'', JStr ''Failed to process message'') #
                                      (if exn_message e = [] then []
                                       else [(''error'', JStr (exn_message e))])))\<rparr>, w) \<and>
               serverless_default_handler svc ev w =
                 (\<lparr>statusCode = 500, headers = [],
                   body = JObj [(''message'', JStr ''Failed to process message''),
                                (''error'', JStr (exn_message e))]\<rparr>, w)
          else True"
  proof (cases "JSON_parse svc (str_or (event_body ev) ''{}'') = Inl e")
    case True
    show ?thesis
      by (subst if_P[OF True]) (rule bad[OF True])
  next
    case False
    show ?thesis
      by (subst if_not_P[OF False]) (rule TrueI)
  qed
  have g2: "if truthy_str (event_body ev) then True
          else if JSON_parse svc ''{}'' = Inr (JObj []) \<and> post_fault svc cid = None
          then default_handler svc env ev w =
                 (\<lparr>statusCode = 200, headers = [(''Content-Type'', ''application/json'')],
                   body = JObj [(''message'', JStr ''Message processed'')]\<rparr>,
                  w\<lparr>post_attempts := post_attempts w @
                     [(cid, JObj [(''type'', JStr ''echo''),
                                  (''data'', JObj [(''message'', JStr ''Message received''),
                                                   (''original'', JObj []),
                                                   (''connectionId'', JStr cid)]),
                                  (''timestamp'', JStr (now_iso svc))])]\<rparr>) \<and>
               serverless_default_handler svc ev w =
                 (\<lparr>statusCode = 200, headers = [],
                   body = JObj [(''message'', JStr ''Message processed'')]\<rparr>,
                  w\<lparr>uuids_drawn := Suc (uuids_drawn w),
                    post_attempts := post_attempts w @
                     [(cid, JObj [(''type'', JStr ''echo''),
                                  (''version'', JStr ''1''),
                                  (''id'', JStr (randomUUID svc (uuids_drawn w))),
                                  (''timestamp'', JStr (now_iso svc)),
                                  (''source'', JStr ''backend''),
                                  (''data'', JObj [(''message'', JStr ''Message received'')])])]\<rparr>)
          else True"
  proof (cases "truthy_str (event_body ev)")
    case True
    show ?thesis
      by (subst if_P[OF True]) (rule TrueI)
  next
    case nb: False
    show ?thesis
    proof (cases "JSON_parse svc ''{}'' = Inr (JObj []) \<and> post_fault svc cid = None")
      case True
      then have "JSON_parse svc ''{}'' = Inr (JObj [])" and "post_fault svc cid = None"
        by simp_all
      from empty[OF nb this] show ?thesis
        by (subst if_not_P[OF nb], subst if_P[OF True])
    next
      case False
      show ?thesis
        by (subst if_not_P[OF nb], subst if_not_P[OF False]) (rule TrueI)
    qed
  qed
  show ?thesis
    by (intro conjI g1 g2)
qed

text \<open>
  A body that is not JSON gives 500 without a push; no body gives the echo and 200.
\<close>

theorem default_handler_body_handling_witness:
  "JSON_parse svc_ok (str_or (event_body (ev_inbound ''c9'' (Some body_malformed))) ''{}'') =
     Inl (Exn ''Unexpected token in JSON'' None None) \<and>
   default_handler svc_ok env_ok (ev_inbound ''c9'' (Some body_malformed)) w_empty =
     (\<lparr>statusCode = 500,
       headers = [(''Content-Type'', ''application/json''),
                  (''Access-Control-Allow-Origin'', ''*''),
                  (''Access-Control-Allow-Headers'', ''Content-Type,Authorization''),
                  (''Access-Control-Allow-Methods'', ''GET,POST,PUT,DELETE,OPTIONS'')],
       body = JObj [(''message'', JStr ''Failed to process message''),
                    (''error'', JStr ''Unexpected token in JSON'')]\<rparr>, w_empty) \<and>
   serverless_default_handler svc_ok (ev_inbound ''c9'' (Some body_malformed)) w_empty =
     (\<lparr>statusCode = 500, headers = [],
       body = JObj [(''message'', JStr ''Failed to process message''),
                    (''error'', JStr ''Unexpected token in JSON'')]\<rparr>, w_empty) \<and>
   JSON_parse svc_ok ''{}'' = Inr (JObj []) \<and>
   default_handler svc_ok env_ok (ev_inbound ''c9'' None) w_empty =
     (\<lparr>statusCode = 200, headers = [(''Content-Type'', ''application/json'')],
       body = JObj [(''message'', JStr ''Message processed'')]\<rparr>,
      \<lparr>table = [], scans = 0, uuids_drawn = 0,
       post_attempts =
         [(''c9'', JObj [(''type'', JStr ''echo''),
                         (''data'', JObj [(''message'', JStr ''Message received''),
                                          (''original'', JObj []),
                                          (''connectionId'', JStr ''c9'')]),
                         (''timestamp'', JStr ''2024-01-01T00:00:00.000Z'')])]\<rparr>) \<and>
   serverless_default_handler svc_ok (ev_inbound ''c9'' None) w_empty =
     (\<lparr>statusCode = 200, headers = [],
       body = JObj [(''message'', JStr ''Message processed'')]\<rparr>,
      \<lparr>table = [], scans = 0, uuids_drawn = 1,
       post_attempts =
         [(''c9'', JObj [(''type'', JStr ''echo''),
                         (''version'', JStr ''1''),
                         (''id'', JStr ''6f1c2a9e-0000-4000-8000-000000000001''),
                         (''timestamp'', JStr ''2024-01-01T00:00:00.000Z''),
                         (''source'', JStr ''backend''),
                         (''data'', JObj [(''message'', JStr ''Message received'')])])]\<rparr>)"
proof -
  let ?e = "Exn ''Unexpected token in JSON'' None None"
  have e: "validateEnvironment env_ok =
     Inr \<lparr>DYNAMODB_CONNECTIONS_TABLE = ''connections'',
          WEBSOCKET_API_ENDPOINT = ''https://ws.example.com/prod'',
          CORS_ORIGIN = Some ''https://app.example.com''\<rparr>"
    by code_simp
  have c: "requestContext_connectionId (ev_inbound ''c9'' bd) = Some ''c9''" for bd
    by (simp add: ev_inbound_def)
  have n: "''c9'' \<noteq> []"
    by simp
  have p0: "JSON_parse svc_ok (str_or (event_body (ev_inbound ''c9'' (Some body_malformed))) ''{}'') =
            Inl ?e"
    by code_simp
  have p1: "JSON_parse svc_ok ''{}'' = Inr (JObj [])"
    by code_simp
  have i: "\<not> str_includes ''Unexpected token in JSON'' ''environment variable''"
    by code_simp
  have f: "post_fault svc_ok ''c9'' = None"
    by (simp add: svc_ok_def)
  have t: "\<not> truthy_str (event_body (ev_inbound ''c9'' None))"
    by (simp add: ev_inbound_def)
  have u: "randomUUID svc_ok 0 = ''6f1c2a9e-0000-4000-8000-000000000001''"
    "now_iso svc_ok = ''2024-01-01T00:00:00.000Z''"
    by (simp_all add: svc_ok_def)
  note bad = default_handler_body_handling[OF c n e, of svc_ok "Some body_malformed" ?e w_empty,
               THEN conjunct1, unfolded if_P[OF p0]]
  note ok = default_handler_body_handling[OF c n e, of svc_ok None _ w_empty, THEN conjunct2,
              unfolded if_not_P[OF t] if_P[OF conjI[OF p1 f]]]
  have x0: "default_handler svc_ok env_ok (ev_inbound ''c9'' (Some body_malformed)) w_empty =
     (\<lparr>statusCode = 500,
       headers = [(''Content-Type'', ''application/json''),
                  (''Access-Control-Allow-Origin'', ''*''),
                  (''Access-Control-Allow-Headers'', ''Content-Type,Authorization''),
                  (''Access-Control-Allow-Methods'', ''GET,POST,PUT,DELETE,OPTIONS'')],
       body = JObj [(''message'', JStr ''Failed to process message''),
                    (''error'', JStr ''Unexpected token in JSON'')]\<rparr>, w_empty)"
    using bad[THEN conjunct1] by (simp add: i)
  have y0: "serverless_default_handler svc_ok (ev_inbound ''c9'' (Some body_malformed)) w_empty =
     (\<lparr>statusCode = 500, headers = [],
       body = JObj [(''message'', JStr ''Failed to process message''),
                    (''error'', JStr ''Unexpected token in JSON'')]\<rparr>, w_empty)"
    using bad[THEN conjunct2] by simp
  have x1: "default_handler svc_ok env_ok (ev_inbound ''c9'' None) w_empty =
     (\<lparr>statusCode = 200, headers = [(''Content-Type'', ''application/json'')],
       body = JObj [(''message'', JStr ''Message processed'')]\<rparr>,
      \<lparr>table = [], scans = 0, uuids_drawn = 0,
       post_attempts =
         [(''c9'', JObj [(''type'', JStr ''echo''),
                         (''data'', JObj [(''message'', JStr ''Message received''),
                                          (''original'', JObj []),
                                          (''connectionId'', JStr ''c9'')]),
                         (''timestamp'', JStr ''2024-01-01T00:00:00.000Z'')])]\<rparr>)"
    using ok[THEN conjunct1] by (simp add: w_empty_def u)
  have y1: "serverless_default_handler svc_ok (ev_inbound ''c9'' None) w_empty =
     (\<lparr>statusCode = 200, headers = [],
       body = JObj [(''message'', JStr ''Message processed'')]\<rparr>,
      \<lparr>table = [], scans = 0, uuids_drawn = 1,
       post_attempts =
         [(''c9'', JObj [(''type'', JStr ''echo''),
                         (''version'', JStr ''1''),
                         (''id'', JStr ''6f1c2a9e-0000-4000-8000-000000000001''),
                         (''timestamp'', JStr ''2024-01-01T00:00:00.000Z''),
                         (''source'', JStr ''backend''),
                         (''data'', JObj [(''message'', JStr ''Message received'')])])]\<rparr>)"
    using ok[THEN conjunct2] by (simp add: w_empty_def u)
  show ?thesis
    by (intro conjI p0 x0 y0 p1 x1 y1)
qed

text \<open>
  Claim C7 as stated fails: for connection \<open>c9\<close> and a body that is not JSON, both
  default handlers answer 500 and no echo is pushed. \<open>JSON.parse\<close> throws inside the
  \<open>try\<close> block, whose \<open>catch\<close> answers 500.
\<close>

theorem malformed_body_fails_the_default_handler:
  "JSON_parse svc_ok body_malformed = Inl (Exn ''Unexpected token in JSON'' None None) \<and>
   statusCode (fst (default_handler svc_ok env_ok (ev_inbound ''c9'' (Some body_malformed))
                      w_empty)) = 500 \<and>
   post_attempts (snd (default_handler svc_ok env_ok (ev_inbound ''c9'' (Some body_malformed))
                         w_empty)) = [] \<and>
   statusCode (fst (serverless_default_handler svc_ok (ev_inbound ''c9'' (Some body_malformed))
                      w_empty)) = 500 \<and>
   post_attempts (snd (serverless_default_handler svc_ok (ev_inbound ''c9'' (Some body_malformed))
                         w_empty)) = []"
  by code_simp

end
